theory Spec2Isabelle
  imports Complex_Main
begin

section \<open>Conventions\<close>

text \<open>
  The development embeds \<^verbatim>\<open>torch_spsr/bases/bezier_tensor.py\<close> (class
  \<^verbatim>\<open>BezierTensorBasis\<close>) and \<^verbatim>\<open>dataset/base.py\<close> (class
  \<^verbatim>\<open>RandomSafeDataset\<close>).

  \<^item> A tensor of shape \<open>(N,)\<close> is a list, a tensor of shape \<open>(N, 3)\<close> a list of triples;
    tensor operations are elementwise.
  \<^item> The tensors hold 32-bit floats and their arithmetic is the library's, not the
    repository's. Every embedded function therefore takes the arithmetic as a parameter
    \<open>F\<close> and applies its operations in the order of the source; the theorems hold for
    every \<open>F\<close>. The IEEE arithmetic with rounding, overflow to infinity and NaN is the
    instance \<open>f32_env\<close> defined below.
  \<^item> Python integers are \<open>int\<close>; \<^verbatim>\<open>//\<close> is floor division, which is \<open>div\<close> on \<open>int\<close>.
  \<^item> Every exception the embedded code can raise is a value of \<open>py_exn\<close>; a fallible
    function returns \<open>py_exn + 'a\<close> with \<open>Inl\<close> for the raised exception.
\<close>

datatype py_exn =
    AssertionError
  | ZeroDivisionError
  | ValueError
  | IndexError
  | RuntimeError
  | ConnectionAbortedError
  | NotImplementedError
  | OtherException string
  | BaseOnly string

type_synonym 'f vec3 = "'f \<times> 'f \<times> 'f"

section \<open>The arithmetic of the libraries\<close>

text \<open>
  What the code takes from torch and from Python's \<^verbatim>\<open>math\<close>, with \<open>'f\<close> the type of a tensor
  element:
  \<^item> \<open>fadd\<close>, \<open>fsub\<close>, \<open>fmul\<close>, \<open>fdiv\<close>: the elementwise \<^verbatim>\<open>+ - * /\<close> of two tensor elements;
  \<^item> \<open>fle a b\<close>, \<open>flt a b\<close>: the comparisons \<^verbatim>\<open>a <= b\<close> and \<^verbatim>\<open>a < b\<close>;
  \<^item> \<open>of_py r\<close>: the tensor element made from the Python float whose exact value would be
    \<open>r\<close> (a scalar operand of a tensor operation, or an entry of a list turned into a
    tensor): Python rounds \<open>r\<close> to a double, torch casts the double to the tensor's type;
  \<^item> \<open>of_pyint n\<close>: the tensor element made from the Python integer \<open>n\<close>;
  \<^item> \<open>round_long a\<close>: \<^verbatim>\<open>a.round().long()\<close>;
  \<^item> \<open>log2_trunc n\<close>: \<^verbatim>\<open>int(math.log2(n))\<close> for a positive integer \<open>n\<close>.
\<close>

record 'f arith =
  fadd :: "'f \<Rightarrow> 'f \<Rightarrow> 'f"
  fsub :: "'f \<Rightarrow> 'f \<Rightarrow> 'f"
  fmul :: "'f \<Rightarrow> 'f \<Rightarrow> 'f"
  fdiv :: "'f \<Rightarrow> 'f \<Rightarrow> 'f"
  fle :: "'f \<Rightarrow> 'f \<Rightarrow> bool"
  flt :: "'f \<Rightarrow> 'f \<Rightarrow> bool"
  of_py :: "real \<Rightarrow> 'f"
  of_pyint :: "int \<Rightarrow> 'f"
  round_long :: "'f \<Rightarrow> int"
  log2_trunc :: "int \<Rightarrow> int"

text \<open>A boolean tensor in a product with a float tensor is promoted: \<open>1.0\<close> or \<open>0.0\<close>.\<close>

definition of_mask :: "'f arith \<Rightarrow> bool \<Rightarrow> 'f" where
  "of_mask F m = of_pyint F (if m then 1 else 0)"

section \<open>Basis evaluation\<close>

text \<open>
  \<^verbatim>\<open>evaluate_single\<close>: three polynomials, three masks, each mask multiplied with its
  polynomial, and the products summed from the left. \<^verbatim>\<open>v ** 2\<close> is the product \<open>v * v\<close>;
  \<^verbatim>\<open>x >= c\<close> is \<open>c <= x\<close>.
\<close>

definition evaluate_single :: "'f arith \<Rightarrow> 'f \<Rightarrow> 'f" where
  "evaluate_single F x =
     (let s1 = fadd F x (of_py F (3/2));
          b1 = fmul F s1 s1;
          b2 = fadd F (fmul F (of_pyint F (-2)) (fmul F x x)) (of_py F (3/2));
          s3 = fsub F x (of_py F (3/2));
          b3 = fmul F s3 s3;
          m1 = (fle F (of_py F (-(3/2))) x \<and> flt F x (of_py F (-(1/2))));
          m2 = (fle F (of_py F (-(1/2))) x \<and> flt F x (of_py F (1/2)));
          m3 = (fle F (of_py F (1/2)) x \<and> flt F x (of_py F (3/2)))
      in fadd F (fadd F (fmul F (of_mask F m1) b1) (fmul F (of_mask F m2) b2))
           (fmul F (of_mask F m3) b3))"

definition evaluate_derivative_single :: "'f arith \<Rightarrow> 'f \<Rightarrow> 'f" where
  "evaluate_derivative_single F x =
     (let b1 = fadd F (fmul F (of_pyint F 2) x) (of_pyint F 3);
          b2 = fmul F (of_pyint F (-4)) x;
          b3 = fsub F (fmul F (of_pyint F 2) x) (of_pyint F 3);
          m1 = (fle F (of_py F (-(3/2))) x \<and> flt F x (of_py F (-(1/2))));
          m2 = (fle F (of_py F (-(1/2))) x \<and> flt F x (of_py F (1/2)));
          m3 = (fle F (of_py F (1/2)) x \<and> flt F x (of_py F (3/2)))
      in fadd F (fadd F (fmul F (of_mask F m1) b1) (fmul F (of_mask F m2) b2))
           (fmul F (of_mask F m3) b3))"

text \<open>
  \<^verbatim>\<open>evaluate\<close> and \<^verbatim>\<open>evaluate_derivative\<close> take the feature tensor and the feature
  indices and ignore them; \<open>xyz\<close> has shape \<open>(N, 3)\<close>. \<^verbatim>\<open>torch.stack(..., dim=1)\<close> gives one
  triple per query.
\<close>

definition evaluate :: "'f arith \<Rightarrow> 'a \<Rightarrow> 'f vec3 list \<Rightarrow> 'i \<Rightarrow> 'f list" where
  "evaluate F feat xyz feat_ids =
     map (\<lambda>(x, y, z).
            let bx = evaluate_single F x;
                by = evaluate_single F y;
                bz = evaluate_single F z
            in fmul F (fmul F bx by) bz) xyz"

definition evaluate_derivative ::
    "'f arith \<Rightarrow> 'a \<Rightarrow> 'f vec3 list \<Rightarrow> 'i \<Rightarrow> int \<Rightarrow> 'f vec3 list" where
  "evaluate_derivative F feat xyz feat_ids stride =
     map (\<lambda>(x, y, z).
            let bx = evaluate_single F x;
                by = evaluate_single F y;
                bz = evaluate_single F z;
                dx = fdiv F (evaluate_derivative_single F x) (of_pyint F stride);
                dy = fdiv F (evaluate_derivative_single F y) (of_pyint F stride);
                dz = fdiv F (evaluate_derivative_single F z) (of_pyint F stride)
            in (fmul F (fmul F dx by) bz, fmul F (fmul F bx dy) bz, fmul F (fmul F bx by) dz))
         xyz"

section \<open>Python and tensor primitives\<close>

text \<open>Sequencing of fallible steps: the first raised exception ends the call.\<close>

definition bind_exn :: "py_exn + 'a \<Rightarrow> ('a \<Rightarrow> py_exn + 'b) \<Rightarrow> py_exn + 'b" where
  "bind_exn r f = (case r of Inl e \<Rightarrow> Inl e | Inr v \<Rightarrow> f v)"

text \<open>
  Indexing a Python list, and indexing a one-dimensional tensor by an integer tensor: an
  index \<open>i\<close> with \<open>-n \<le> i < 0\<close> counts from the end, an index outside \<open>[-n, n)\<close> raises
  \<^verbatim>\<open>IndexError\<close>.
\<close>

definition py_getitem :: "'a list \<Rightarrow> int \<Rightarrow> py_exn + 'a" where
  "py_getitem xs i =
     (let n = int (length xs);
          j = (if i < 0 then i + n else i)
      in if 0 \<le> j \<and> j < n then Inr (xs ! nat j) else Inl IndexError)"

text \<open>
  \<^verbatim>\<open>int(math.log2(mult))\<close> on a Python integer: \<^verbatim>\<open>ValueError\<close> (math domain error) unless
  \<open>mult\<close> is positive, otherwise what the library computes.
\<close>

definition int_log2 :: "'f arith \<Rightarrow> int \<Rightarrow> py_exn + int" where
  "int_log2 F mult = (if mult \<le> 0 then Inl ValueError else Inr (log2_trunc F mult))"

text \<open>\<^verbatim>\<open>clamp_(min=lo, max=hi)\<close>; when \<open>lo > hi\<close> every entry becomes \<open>hi\<close>.\<close>

definition clamp :: "int \<Rightarrow> int \<Rightarrow> int \<Rightarrow> int" where
  "clamp lo hi v = min (max v lo) hi"

definition map3 :: "('a \<Rightarrow> 'b) \<Rightarrow> 'a \<times> 'a \<times> 'a \<Rightarrow> 'b \<times> 'b \<times> 'b" where
  "map3 f t = (case t of (a, b, c) \<Rightarrow> (f a, f b, f c))"

text \<open>
  \<^verbatim>\<open>row[abs_val]\<close> for a one-dimensional tensor \<open>row\<close> and \<open>abs_val\<close> of shape \<open>(N, 3)\<close>: every
  entry is looked up; one entry out of range fails the whole call.
\<close>

definition index3 :: "'a list \<Rightarrow> int \<times> int \<times> int \<Rightarrow> py_exn + 'a \<times> 'a \<times> 'a" where
  "index3 row q =
     (case q of (a, b, c) \<Rightarrow>
        bind_exn (py_getitem row a) (\<lambda>x.
        bind_exn (py_getitem row b) (\<lambda>y.
        bind_exn (py_getitem row c) (\<lambda>z. Inr (x, y, z)))))"

fun index_batch :: "'a list \<Rightarrow> (int \<times> int \<times> int) list \<Rightarrow> py_exn + ('a \<times> 'a \<times> 'a) list" where
  "index_batch row [] = Inr []"
| "index_batch row (q # qs) =
     bind_exn (index3 row q) (\<lambda>v.
     bind_exn (index_batch row qs) (\<lambda>vs. Inr (v # vs)))"

text \<open>\<^verbatim>\<open>t[mask] = 0.0\<close> on a tensor of shape \<open>(N, 3)\<close> with a boolean mask of the same shape.\<close>

definition masked_zero ::
    "'f arith \<Rightarrow> (bool \<times> bool \<times> bool) list \<Rightarrow> 'f vec3 list \<Rightarrow> 'f vec3 list" where
  "masked_zero F msk t =
     map2 (\<lambda>(m0, m1, m2) (v0, v1, v2).
             (if m0 then of_py F 0 else v0, if m1 then of_py F 0 else v1,
              if m2 then of_py F 0 else v2)) msk t"

text \<open>
  Elementwise arithmetic of two tensors of shapes \<open>(N,)\<close> and \<open>(M,)\<close>: the shapes must agree
  unless one of them is \<open>1\<close>, which is then repeated; otherwise \<^verbatim>\<open>RuntimeError\<close>.
\<close>

definition broadcast2 :: "'a list \<Rightarrow> 'b list \<Rightarrow> py_exn + ('a \<times> 'b) list" where
  "broadcast2 xs ys =
     (if length xs = length ys then Inr (zip xs ys)
      else if length xs = 1 then Inr (zip (replicate (length ys) (hd xs)) ys)
      else if length ys = 1 then Inr (zip xs (replicate (length xs) (hd ys)))
      else Inl RuntimeError)"

section \<open>The precomputed integral tables\<close>

text \<open>
  \<^verbatim>\<open>_initialize_constants\<close> unpickles eight class constants from
  \<^verbatim>\<open>data/bezier_integrals.pkl\<close>. The file is not part of the sources, so the tables are a
  parameter of every function that reads them: each is a sequence, indexed by level, of
  one-dimensional arrays of Python floats (a double is the real number it stands for).
  \<^verbatim>\<open>torch.tensor(row, dtype=torch.float)\<close> is \<open>map (of_py F) row\<close>.
\<close>

record integral_tables =
  PARTIAL_INTEGRAL :: "real list list"
  DERIVATIVE_PARTIAL_INTEGRAL :: "real list list"
  INV_PARTIAL_INTEGRAL :: "real list list"
  INV_DERIVATIVE_PARTIAL_INTEGRAL :: "real list list"
  SHIFTED_SELF_INTEGRAL :: "real list list"
  SHIFTED_DERIVATIVE_INTEGRAL :: "real list list"
  SHIFTED_SELF_DERIV_INTEGRAL :: "real list list"
  INV_SHIFTED_SELF_DERIV_INTEGRAL :: "real list list"

section \<open>Cross-scale integrals\<close>

text \<open>
  \<^verbatim>\<open>integrate_deriv_deriv_product\<close>. The steps follow the source line by line: the
  assertion, the floor division (which raises on a zero divisor), the rounded indices
  (the Python float \<^verbatim>\<open>mult * 3 / 2\<close> is added first, then \<^verbatim>\<open>0.5\<close>), the level, the validity
  mask taken before the clamp, the two lookups with their scaling and masking, and the
  sum of the three products.
\<close>

definition integrate_deriv_deriv_product ::
    "'f arith \<Rightarrow> integral_tables \<Rightarrow> 'f vec3 list \<Rightarrow> int \<Rightarrow> int \<Rightarrow> py_exn + 'f list" where
  "integrate_deriv_deriv_product F T rel_pos source_stride target_stride =
     (if \<not> source_stride \<le> target_stride then Inl AssertionError
      else if source_stride = 0 then Inl ZeroDivisionError
      else
        let mult = target_stride div source_stride;
            abs_val = map (map3 (\<lambda>r. round_long F
                        (fadd F (fadd F r (of_py F (of_int (mult * 3) / 2))) (of_py F (1/2)))))
                        rel_pos
        in
        bind_exn (int_log2 F mult) (\<lambda>level.
        bind_exn (py_getitem (SHIFTED_SELF_INTEGRAL T) level) (\<lambda>ssi.
          let n = int (length ssi);
              invalid_range_val = map (map3 (\<lambda>a. \<not> (a \<ge> 0 \<and> a < n))) abs_val;
              abs_val = map (map3 (clamp 0 (n - 1))) abs_val
          in
          bind_exn (index_batch (map (of_py F) ssi) abs_val) (\<lambda>looked.
            let const_val = masked_zero F invalid_range_val
                  (map (map3 (\<lambda>v. fmul F v (of_pyint F source_stride))) looked)
            in
            bind_exn (py_getitem (SHIFTED_DERIVATIVE_INTEGRAL T) level) (\<lambda>sdi.
            bind_exn (index_batch (map (of_py F) sdi) abs_val) (\<lambda>looked_d.
              let integral_val = masked_zero F invalid_range_val
                    (map (map3 (\<lambda>v. fdiv F v (of_pyint F target_stride))) looked_d)
              in
              Inr (map2 (\<lambda>(c0, c1, c2) (i0, i1, i2).
                           fadd F (fadd F (fmul F (fmul F i0 c1) c2)
                                          (fmul F (fmul F c0 i1) c2))
                                  (fmul F (fmul F c0 c1) i2))
                     const_val integral_val)))))))"

text \<open>
  \<^verbatim>\<open>integrate_const_deriv_product\<close>, in two parts. \<open>const_deriv_branch\<close> is the
  \<^verbatim>\<open>if\<close>/\<^verbatim>\<open>else\<close> block: it yields the rounded indices, the two table rows, the stride
  used for scaling (the strides are swapped in the second branch) and \<open>i_mult\<close>, a Python
  float that only ever multiplies a tensor.
\<close>

definition const_deriv_branch ::
    "'f arith \<Rightarrow> integral_tables \<Rightarrow> 'f vec3 list \<Rightarrow> int \<Rightarrow> int
      \<Rightarrow> py_exn + ((int \<times> int \<times> int) list \<times> real list \<times> real list \<times> int \<times> 'f)" where
  "const_deriv_branch F T rel_pos data_stride target_stride =
     (if target_stride \<ge> data_stride then
        if data_stride = 0 then Inl ZeroDivisionError
        else
          let mult = target_stride div data_stride;
              abs_val = map (map3 (\<lambda>r. round_long F
                          (fadd F r (of_py F (of_int (3 * mult - 1) / 2))))) rel_pos
          in
          bind_exn (int_log2 F mult) (\<lambda>level.
          bind_exn (py_getitem (DERIVATIVE_PARTIAL_INTEGRAL T) level) (\<lambda>dpi.
          bind_exn (py_getitem (PARTIAL_INTEGRAL T) level) (\<lambda>pi'.
            if target_stride = 0 then Inl ZeroDivisionError
            else Inr (abs_val, dpi, pi', data_stride,
                      of_py F (of_int data_stride / of_int target_stride)))))
      else
        if target_stride = 0 then Inl ZeroDivisionError
        else
          let mult = data_stride div target_stride;
              abs_val = map (map3 (\<lambda>r. round_long F
                          (fadd F (fadd F (fmul F r (of_pyint F mult)) (of_py F (of_int mult / 2)))
                             (of_py F (1/2))))) rel_pos
          in
          bind_exn (int_log2 F mult) (\<lambda>l.
            let level = l - 1 in
            bind_exn (py_getitem (INV_DERIVATIVE_PARTIAL_INTEGRAL T) level) (\<lambda>dpi.
            bind_exn (py_getitem (INV_PARTIAL_INTEGRAL T) level) (\<lambda>pi'.
              Inr (abs_val, dpi, pi', target_stride, of_py F 1)))))"

text \<open>
  The common tail: both rows are indexed by the unclamped, unmasked \<open>abs_val\<close>; \<open>data\<close>
  has shape \<open>(N, 3)\<close>; products and sums associate to the left.
\<close>

definition integrate_const_deriv_product ::
    "'f arith \<Rightarrow> integral_tables \<Rightarrow> 'f vec3 list \<Rightarrow> 'f vec3 list \<Rightarrow> int \<Rightarrow> int
      \<Rightarrow> py_exn + 'f list" where
  "integrate_const_deriv_product F T data rel_pos data_stride target_stride =
     bind_exn (const_deriv_branch F T rel_pos data_stride target_stride)
       (\<lambda>(abs_val, dpi, pi', data_stride, i_mult).
          bind_exn (index_batch (map (of_py F) dpi) abs_val) (\<lambda>looked.
            let const_val = map (map3 (\<lambda>v. fmul F v (of_pyint F data_stride))) looked in
            bind_exn (index_batch (map (of_py F) pi') abs_val) (\<lambda>looked_i.
              let integral_val = map (map3 (\<lambda>v. fmul F v i_mult)) looked_i in
              bind_exn (broadcast2 data (zip integral_val const_val)) (\<lambda>rows.
                Inr (map (\<lambda>((d0, d1, d2), (i0, i1, i2), (c0, c1, c2)).
                            fadd F
                              (fadd F (fmul F (fmul F (fmul F d0 i0) c1) c2)
                                      (fmul F (fmul F (fmul F d1 c0) i1) c2))
                              (fmul F (fmul F (fmul F d2 c0) c1) i2))
                       rows)))))"

section \<open>Closed forms used in the statements\<close>

text \<open>
  The index of one axis of the gradient-gradient integral, as the source computes it:
  the element plus the Python float \<open>mult * 1.5\<close>, plus \<open>0.5\<close>, rounded.
\<close>

definition grad_grad_index :: "'f arith \<Rightarrow> int \<Rightarrow> 'f \<Rightarrow> int" where
  "grad_grad_index F mult r =
     round_long F (fadd F (fadd F r (of_py F (of_int mult * (3/2)))) (of_py F (1/2)))"

text \<open>
  The plain term and the derivative term of one axis: inside \<open>[0, len)\<close> the plain term is
  the self-integral entry times the source stride and the derivative term the derivative
  entry over the target stride; outside, both are the literal \<open>0.0\<close>.
\<close>

definition grad_grad_terms ::
    "'f arith \<Rightarrow> real list \<Rightarrow> real list \<Rightarrow> int \<Rightarrow> int \<Rightarrow> int \<Rightarrow> 'f \<Rightarrow> 'f \<times> 'f" where
  "grad_grad_terms F ssi sdi mult s t r =
     (let idx = grad_grad_index F mult r
      in if 0 \<le> idx \<and> idx < int (length ssi)
         then (fmul F (of_py F (ssi ! nat idx)) (of_pyint F s),
               fdiv F (of_py F (sdi ! nat idx)) (of_pyint F t))
         else (of_py F 0, of_py F 0))"

definition grad_grad_query ::
    "'f arith \<Rightarrow> real list \<Rightarrow> real list \<Rightarrow> int \<Rightarrow> int \<Rightarrow> int \<Rightarrow> 'f vec3 \<Rightarrow> 'f" where
  "grad_grad_query F ssi sdi mult s t q =
     (case q of (x, y, z) \<Rightarrow>
        let (px, dx) = grad_grad_terms F ssi sdi mult s t x;
            (py, dy) = grad_grad_terms F ssi sdi mult s t y;
            (pz, dz) = grad_grad_terms F ssi sdi mult s t z
        in fadd F (fadd F (fmul F (fmul F dx py) pz) (fmul F (fmul F px dy) pz))
             (fmul F (fmul F px py) dz))"


text \<open>
  An index a Python sequence accepts, and the position it reads: a negative index counts
  from the end.
\<close>

definition index_ok :: "nat \<Rightarrow> int \<Rightarrow> bool" where
  "index_ok n k = (- int n \<le> k \<and> k < int n)"

definition wrap_index :: "nat \<Rightarrow> int \<Rightarrow> nat" where
  "wrap_index n k = nat (if k < 0 then k + int n else k)"

definition ok3 :: "nat \<Rightarrow> int \<times> int \<times> int \<Rightarrow> bool" where
  "ok3 n q = (case q of (a, b, c) \<Rightarrow> index_ok n a \<and> index_ok n b \<and> index_ok n c)"

text \<open>
  One query of the constant-gradient integral in closed form, from the rounded indices:
  every lookup goes through \<open>wrap_index\<close>, nothing is clamped or masked.
\<close>

definition const_grad_query ::
    "'f arith \<Rightarrow> real list \<Rightarrow> real list \<Rightarrow> int \<Rightarrow> 'f \<Rightarrow> 'f vec3 \<Rightarrow> int \<times> int \<times> int \<Rightarrow> 'f" where
  "const_grad_query F dpi pi' sc im d q =
     (case d of (d0, d1, d2) \<Rightarrow> case q of (kx, ky, kz) \<Rightarrow>
        let plain = (\<lambda>k. fmul F (of_py F (dpi ! wrap_index (length dpi) k)) (of_pyint F sc));
            deriv = (\<lambda>k. fmul F (of_py F (pi' ! wrap_index (length pi') k)) im)
        in fadd F
             (fadd F (fmul F (fmul F (fmul F d0 (deriv kx)) (plain ky)) (plain kz))
                     (fmul F (fmul F (fmul F d1 (plain kx)) (deriv ky)) (plain kz)))
             (fmul F (fmul F (fmul F d2 (plain kx)) (plain ky)) (deriv kz)))"

text \<open>
  The constant-gradient integral as the specification words it, for indices in range.
  Branch \<open>targetStride \<ge> dataStride\<close>: index \<open>round(r + (3 mult - 1)/2)\<close>, forward tables,
  plain term scaled by \<open>dataStride\<close>, derivative term by \<open>dataStride/targetStride\<close>. Branch
  \<open>targetStride < dataStride\<close>: index \<open>round(r mult + mult/2 + 0.5)\<close>, inverse tables, plain
  term scaled by \<open>targetStride\<close>, derivative term by \<open>1.0\<close>. The result is the sum over the
  axes of \<open>data\<^sub>i deriv\<^sub>i\<close> times the plain terms of the other two axes. Sums and
  products are those of \<open>F\<close>, taken from the left.
\<close>

definition spec_idx_forward :: "'f arith \<Rightarrow> int \<Rightarrow> 'f \<Rightarrow> int" where
  "spec_idx_forward F mult r = round_long F (fadd F r (of_py F ((3 * of_int mult - 1) / 2)))"

definition spec_idx_inverse :: "'f arith \<Rightarrow> int \<Rightarrow> 'f \<Rightarrow> int" where
  "spec_idx_inverse F mult r =
     round_long F (fadd F (fadd F (fmul F r (of_pyint F mult)) (of_py F (of_int mult / 2)))
                     (of_py F (1/2)))"

definition spec_in_range :: "real list \<Rightarrow> real list \<Rightarrow> ('f \<Rightarrow> int) \<Rightarrow> 'f vec3 list \<Rightarrow> bool" where
  "spec_in_range dtab ptab idx rel_pos =
     list_all (\<lambda>(x, y, z).
        list_all (\<lambda>r. 0 \<le> idx r \<and> idx r < int (length dtab) \<and> idx r < int (length ptab))
          [x, y, z]) rel_pos"

definition spec_const_grad_sum ::
    "'f arith \<Rightarrow> ('f \<Rightarrow> 'f) \<Rightarrow> ('f \<Rightarrow> 'f) \<Rightarrow> 'f vec3 \<Rightarrow> 'f vec3 \<Rightarrow> 'f" where
  "spec_const_grad_sum F plain deriv d q =
     (case d of (d0, d1, d2) \<Rightarrow> case q of (x, y, z) \<Rightarrow>
        fadd F
          (fadd F (fmul F (fmul F (fmul F d0 (deriv x)) (plain y)) (plain z))
                  (fmul F (fmul F (fmul F d1 (plain x)) (deriv y)) (plain z)))
          (fmul F (fmul F (fmul F d2 (plain x)) (plain y)) (deriv z)))"

definition spec_const_grad_forward ::
    "'f arith \<Rightarrow> integral_tables \<Rightarrow> int \<Rightarrow> nat \<Rightarrow> int \<Rightarrow> int \<Rightarrow> 'f vec3 list \<Rightarrow> 'f vec3 list
      \<Rightarrow> 'f list" where
  "spec_const_grad_forward F T mult level dataStride targetStride data rel_pos =
     (let dtab = DERIVATIVE_PARTIAL_INTEGRAL T ! level;
          ptab = PARTIAL_INTEGRAL T ! level;
          plain = (\<lambda>r. fmul F (of_py F (dtab ! nat (spec_idx_forward F mult r)))
                          (of_pyint F dataStride));
          deriv = (\<lambda>r. fmul F (of_py F (ptab ! nat (spec_idx_forward F mult r)))
                          (of_py F (of_int dataStride / of_int targetStride)))
      in map2 (spec_const_grad_sum F plain deriv) data rel_pos)"

definition spec_const_grad_inverse ::
    "'f arith \<Rightarrow> integral_tables \<Rightarrow> int \<Rightarrow> nat \<Rightarrow> int \<Rightarrow> int \<Rightarrow> 'f vec3 list \<Rightarrow> 'f vec3 list
      \<Rightarrow> 'f list" where
  "spec_const_grad_inverse F T mult level dataStride targetStride data rel_pos =
     (let dtab = INV_DERIVATIVE_PARTIAL_INTEGRAL T ! level;
          ptab = INV_PARTIAL_INTEGRAL T ! level;
          plain = (\<lambda>r. fmul F (of_py F (dtab ! nat (spec_idx_inverse F mult r)))
                          (of_pyint F targetStride));
          deriv = (\<lambda>r. fmul F (of_py F (ptab ! nat (spec_idx_inverse F mult r))) (of_py F 1))
      in map2 (spec_const_grad_sum F plain deriv) data rel_pos)"

section \<open>IEEE arithmetic in single precision\<close>

text \<open>
  The instance of the arithmetic on which the functions are evaluated at concrete
  inputs. A 32-bit float is a real number, an infinity or NaN; the two zeros are one
  value, which no comparison and no result below tells apart.

  \<open>round_half_even\<close> is rounding to the nearest integer with ties to the even one.
  \<open>ieee_nearest p emin r\<close> rounds \<open>r\<close> to the nearest number with \<open>p\<close> significant bits and
  exponent at least \<open>emin\<close> (ties to the even significand); below \<open>2 ^ emin\<close> the spacing
  stays that of the subnormal numbers. \<open>f32_round\<close> adds the overflow to infinity.
\<close>

definition round_half_even :: "real \<Rightarrow> int" where
  "round_half_even x =
     (let f = \<lfloor>x\<rfloor>; d = x - of_int f
      in if d < 1/2 then f else if 1/2 < d then f + 1 else if even f then f else f + 1)"

definition ieee_nearest :: "nat \<Rightarrow> int \<Rightarrow> real \<Rightarrow> real" where
  "ieee_nearest p emin r =
     (if r = 0 then 0
      else let e = max \<lfloor>log 2 \<bar>r\<bar>\<rfloor> emin;
               q = 2 powr of_int (e - (int p - 1))
           in of_int (round_half_even (r / q)) * q)"

datatype f32 = F32 real | PosInf | NegInf | NaN

definition f32_round :: "real \<Rightarrow> f32" where
  "f32_round r =
     (let v = ieee_nearest 24 (-126) r
      in if 2 ^ 128 \<le> \<bar>v\<bar> then (if 0 < r then PosInf else NegInf) else F32 v)"

text \<open>A Python float is a double: the nearest number with 53 significant bits.\<close>

definition f64_nearest :: "real \<Rightarrow> real" where
  "f64_nearest r = ieee_nearest 53 (-1022) r"

fun f32_neg :: "f32 \<Rightarrow> f32" where
  "f32_neg (F32 x) = F32 (- x)"
| "f32_neg PosInf = NegInf"
| "f32_neg NegInf = PosInf"
| "f32_neg NaN = NaN"

fun f32_add :: "f32 \<Rightarrow> f32 \<Rightarrow> f32" where
  "f32_add (F32 x) (F32 y) = f32_round (x + y)"
| "f32_add NaN b = NaN"
| "f32_add a NaN = NaN"
| "f32_add PosInf NegInf = NaN"
| "f32_add NegInf PosInf = NaN"
| "f32_add PosInf b = PosInf"
| "f32_add a PosInf = PosInf"
| "f32_add NegInf b = NegInf"
| "f32_add a NegInf = NegInf"

definition f32_sub :: "f32 \<Rightarrow> f32 \<Rightarrow> f32" where
  "f32_sub a b = f32_add a (f32_neg b)"

fun f32_negative :: "f32 \<Rightarrow> bool" where
  "f32_negative (F32 x) = (x < 0)"
| "f32_negative NegInf = True"
| "f32_negative a = False"

fun f32_mul :: "f32 \<Rightarrow> f32 \<Rightarrow> f32" where
  "f32_mul (F32 x) (F32 y) = f32_round (x * y)"
| "f32_mul a b =
     (if a = NaN \<or> b = NaN \<or> a = F32 0 \<or> b = F32 0 then NaN
      else if f32_negative a = f32_negative b then PosInf else NegInf)"

fun f32_div :: "f32 \<Rightarrow> f32 \<Rightarrow> f32" where
  "f32_div (F32 x) (F32 y) =
     (if y = 0 then (if x = 0 then NaN else if 0 < x then PosInf else NegInf)
      else f32_round (x / y))"
| "f32_div (F32 x) PosInf = F32 0"
| "f32_div (F32 x) NegInf = F32 0"
| "f32_div PosInf (F32 y) = (if y < 0 then NegInf else PosInf)"
| "f32_div NegInf (F32 y) = (if y < 0 then PosInf else NegInf)"
| "f32_div a b = NaN"

fun f32_le :: "f32 \<Rightarrow> f32 \<Rightarrow> bool" where
  "f32_le (F32 x) (F32 y) = (x \<le> y)"
| "f32_le NaN b = False"
| "f32_le a NaN = False"
| "f32_le NegInf b = True"
| "f32_le a PosInf = True"
| "f32_le a b = False"

fun f32_lt :: "f32 \<Rightarrow> f32 \<Rightarrow> bool" where
  "f32_lt (F32 x) (F32 y) = (x < y)"
| "f32_lt NaN b = False"
| "f32_lt a NaN = False"
| "f32_lt PosInf b = False"
| "f32_lt a NegInf = False"
| "f32_lt a b = True"

text \<open>
  \<^verbatim>\<open>.round()\<close> rounds to the nearest integer with ties to even; \<^verbatim>\<open>.long()\<close> converts to a
  64-bit integer. The conversion of a value with no 64-bit integer (too large,
  infinite, NaN) is left open by the language; on the common processors it gives
  \<open>-2 ^ 63\<close>.
\<close>

fun f32_round_long :: "f32 \<Rightarrow> int" where
  "f32_round_long (F32 x) =
     (let n = round_half_even x in if - (2 ^ 63) \<le> n \<and> n < 2 ^ 63 then n else - (2 ^ 63))"
| "f32_round_long a = - (2 ^ 63)"

text \<open>
  A Python float reaches a tensor through a double; a Python integer is converted
  directly. \<^verbatim>\<open>math.log2\<close> converts the integer to a double and the result is a double.
\<close>

definition f32_env :: "f32 arith" where
  "f32_env =
     \<lparr> fadd = f32_add, fsub = f32_sub, fmul = f32_mul, fdiv = f32_div,
       fle = f32_le, flt = f32_lt,
       of_py = (\<lambda>r. f32_round (f64_nearest r)),
       of_pyint = (\<lambda>n. f32_round (of_int n)),
       round_long = f32_round_long,
       log2_trunc = (\<lambda>n. \<lfloor>f64_nearest (log 2 (f64_nearest (of_int n)))\<rfloor>) \<rparr>"

text \<open>
  \<open>small_dyadic r\<close>: \<open>r\<close> is a multiple of \<open>2 ^ -18\<close> below \<open>64\<close> in absolute value. Such a
  number has at most 24 significant bits, so it is a float and a double, and rounding
  leaves it alone.
\<close>

definition small_dyadic :: "real \<Rightarrow> bool" where
  "small_dyadic r = (r * 2 ^ 18 \<in> \<int> \<and> \<bar>r\<bar> < 64)"

text \<open>
  A small instance of the tables, with two levels, for evaluating the functions at
  concrete inputs. Its entries are illustrative: they are not the contents of
  \<^verbatim>\<open>bezier_integrals.pkl\<close>.
\<close>

definition sample_tables :: integral_tables where
  "sample_tables =
     \<lparr> PARTIAL_INTEGRAL =
         [ [1/8, 1/2, 3/4, 1/2, 1/8],
           [1/16, 1/4, 1/2, 3/4, 3/4, 1/2, 1/4, 1/16] ],
       DERIVATIVE_PARTIAL_INTEGRAL =
         [ [1/4, 3/4, 1, 3/4, 1/4],
           [1/8, 3/8, 5/8, 1, 1, 5/8, 3/8, 1/8] ],
       INV_PARTIAL_INTEGRAL =
         [ [1/4, 3/4, 3/4, 1/4],
           [1/8, 3/8, 5/8, 7/8, 7/8, 5/8, 3/8, 1/8] ],
       INV_DERIVATIVE_PARTIAL_INTEGRAL =
         [ [1/2, 3/4, 3/4, 1/2],
           [1/4, 1/2, 3/4, 1, 1, 3/4, 1/2, 1/4] ],
       SHIFTED_SELF_INTEGRAL =
         [ [1/16, 3/4, 2, 3/4, 1/16],
           [1/32, 1/4, 3/4, 5/4, 5/4, 3/4, 1/4, 1/32] ],
       SHIFTED_DERIVATIVE_INTEGRAL =
         [ [-1/4, -1/2, 3/2, -1/2, -1/4],
           [-3/16, -3/8, -3/4, 3/2, 3/2, -3/4, -3/8, -3/16] ],
       SHIFTED_SELF_DERIV_INTEGRAL = [],
       INV_SHIFTED_SELF_DERIV_INTEGRAL = [] \<rparr>"

section \<open>The dataset harness\<close>

text \<open>
  \<^verbatim>\<open>RandomSafeDataset\<close>. The object's fields are a record; \<open>read_count\<close> is the shared
  dictionary \<^verbatim>\<open>_read_count\<close> (only used when \<open>is_val\<close> is false) and \<open>stdout\<close> lists the data
  ids of the warnings printed so far.
\<close>

record dataset =
  seed :: int
  is_val :: bool
  skip_on_error :: bool
  read_count :: "int \<rightharpoonup> nat"
  stdout :: "int list"

text \<open>
  What the class takes from elsewhere is a parameter: the state numpy's \<^verbatim>\<open>RandomState\<close>
  builds from an accepted seed, with its \<^verbatim>\<open>randint\<close> (\<open>'r\<close> is the generator's state), the
  hash of the triple \<open>(idx, read count, seed)\<close>, and from the subclass \<^verbatim>\<open>_get_item\<close> (which
  returns a sample or raises, and may advance the generator) and \<^verbatim>\<open>__len__\<close>.
\<close>

record ('r, 'a) dataset_env =
  RandomState :: "int \<Rightarrow> 'r"
  deterministic_hash :: "int \<times> nat \<times> int \<Rightarrow> int"
  randint :: "'r \<Rightarrow> int \<Rightarrow> int \<Rightarrow> int"
  get_item :: "int \<Rightarrow> 'r \<Rightarrow> (py_exn + 'a) \<times> 'r"
  dataset_len :: int

text \<open>\<^verbatim>\<open>RandomState(s)\<close> raises \<^verbatim>\<open>ValueError\<close> unless \<open>0 \<le> s < 2 ^ 32\<close>.\<close>

definition py_RandomState :: "('r, 'a) dataset_env \<Rightarrow> int \<Rightarrow> py_exn + 'r" where
  "py_RandomState E s = (if 0 \<le> s \<and> s < 2 ^ 32 then Inr (RandomState E s) else Inl ValueError)"

text \<open>
  \<^verbatim>\<open>get_rng\<close>. Outside validation mode the counter of \<open>idx\<close> is created before the
  generator is built and incremented after: when \<^verbatim>\<open>RandomState\<close> raises, the counter
  exists and is not incremented.
\<close>

definition get_rng ::
    "('r, 'a) dataset_env \<Rightarrow> dataset \<Rightarrow> int \<Rightarrow> (py_exn + 'r) \<times> dataset" where
  "get_rng E ds idx =
     (if is_val ds then (py_RandomState E (seed ds), ds)
      else
        let count = (case read_count ds idx of None \<Rightarrow> 0 | Some c \<Rightarrow> c);
            ds = ds\<lparr>read_count := (read_count ds)(idx \<mapsto> count)\<rparr>
        in case py_RandomState E (deterministic_hash E (idx, count, seed ds)) of
             Inl e \<Rightarrow> (Inl e, ds)
           | Inr rng \<Rightarrow> (Inr rng, ds\<lparr>read_count := (read_count ds)(idx \<mapsto> count + 1)\<rparr>))"

text \<open>\<^verbatim>\<open>rng.randint(low, high)\<close> draws from \<open>[low, high)\<close> and raises \<^verbatim>\<open>ValueError\<close> when it is empty.\<close>

definition py_randint :: "('r, 'a) dataset_env \<Rightarrow> 'r \<Rightarrow> int \<Rightarrow> int \<Rightarrow> py_exn + int" where
  "py_randint E rng low high =
     (if low \<ge> high then Inl ValueError else Inr (randint E rng low high))"

text \<open>
  \<^verbatim>\<open>except Exception\<close> catches every exception but those that derive from
  \<^verbatim>\<open>BaseException\<close> only (\<^verbatim>\<open>KeyboardInterrupt\<close>, \<^verbatim>\<open>SystemExit\<close>), here \<open>BaseOnly\<close>.
\<close>

definition is_Exception :: "py_exn \<Rightarrow> bool" where
  "is_Exception e = (case e of BaseOnly _ \<Rightarrow> False | _ \<Rightarrow> True)"

text \<open>
  \<^verbatim>\<open>__getitem__\<close> calls itself with a random index after a caught exception, and nothing
  bounds the number of such calls; the model counts them down from \<open>fuel\<close> and returns
  \<open>None\<close> when none is left. \<^verbatim>\<open>get_rng\<close> is called outside the \<^verbatim>\<open>try\<close>, so what it raises
  leaves the call. An exception raised inside a handler (by \<^verbatim>\<open>randint\<close> or by the nested
  call) is not caught by the other handler of the same \<^verbatim>\<open>try\<close>.
\<close>

fun getitem ::
    "nat \<Rightarrow> ('r, 'a) dataset_env \<Rightarrow> dataset \<Rightarrow> int \<Rightarrow> (py_exn + 'a) option \<times> dataset" where
  "getitem 0 E ds data_id = (None, ds)"
| "getitem (Suc fuel) E ds data_id =
     (case get_rng E ds data_id of
        (Inl e, ds) \<Rightarrow> (Some (Inl e), ds)
      | (Inr rng, ds) \<Rightarrow>
        if skip_on_error ds then
          (case get_item E data_id rng of
             (Inr v, rng) \<Rightarrow> (Some (Inr v), ds)
           | (Inl e, rng) \<Rightarrow>
               if e = ConnectionAbortedError then
                 (case py_randint E rng 0 (dataset_len E - 1) of
                    Inl e' \<Rightarrow> (Some (Inl e'), ds)
                  | Inr k \<Rightarrow> getitem fuel E ds k)
               else if is_Exception e then
                 (let ds = ds\<lparr>stdout := stdout ds @ [data_id]\<rparr> in
                  case py_randint E rng 0 (dataset_len E - 1) of
                    Inl e' \<Rightarrow> (Some (Inl e'), ds)
                  | Inr k \<Rightarrow> getitem fuel E ds k)
               else (Some (Inl e), ds))
        else
          (case get_item E data_id rng of
             (Inr v, rng) \<Rightarrow> (Some (Inr v), ds)
           | (Inl e, rng) \<Rightarrow>
               if e = ConnectionAbortedError then
                 (case py_randint E rng 0 (dataset_len E - 1) of
                    Inl e' \<Rightarrow> (Some (Inl e'), ds)
                  | Inr k \<Rightarrow> getitem fuel E ds k)
               else (Some (Inl e), ds)))"

text \<open>
  A small dataset of three items for concrete evaluation: item \<open>0\<close> fails with
  \<^verbatim>\<open>ConnectionAbortedError\<close>, item \<open>2\<close> with another exception, item \<open>1\<close> loads; \<^verbatim>\<open>randint\<close>
  always draws \<open>1\<close>.
\<close>

definition sample_env :: "(int, int) dataset_env" where
  "sample_env =
     \<lparr> RandomState = (\<lambda>s. s),
       deterministic_hash = (\<lambda>(idx, count, s). idx + int count + s),
       randint = (\<lambda>rng low high. 1),
       get_item = (\<lambda>data_id rng.
          if data_id = 0 then (Inl ConnectionAbortedError, rng)
          else if data_id = 2 then (Inl (OtherException ''corrupt sample''), rng)
          else (Inr (10 * data_id), rng)),
       dataset_len = 3 \<rparr>"

definition sample_dataset :: dataset where
  "sample_dataset =
     \<lparr> seed = 7, is_val = False, skip_on_error = False, read_count = Map.empty, stdout = [] \<rparr>"

section \<open>Properties of the rounding\<close>

lemma round_half_even_of_int: "round_half_even (of_int n) = n"
  by (simp add: round_half_even_def)

lemma round_half_even_bounds:
  "real_of_int (round_half_even y) \<le> y + 1/2" "y - 1/2 \<le> real_of_int (round_half_even y)"
  unfolding round_half_even_def Let_def by (auto; linarith)+

text \<open>A small dyadic number is a float with any precision of at least 24 bits.\<close>

lemma ieee_nearest_small_dyadic:
  assumes "small_dyadic r" and "24 \<le> p" and "emin \<le> -18"
  shows "ieee_nearest p emin r = r"
proof (cases "r = 0")
  case True
  then show ?thesis by (simp add: ieee_nearest_def)
next
  case False
  from assms(1) obtain n :: int where n: "r * 2 ^ 18 = of_int n"
    by (auto simp add: small_dyadic_def Ints_def)
  have r: "r = of_int n / 2 ^ 18" using n by (simp add: field_simps)
  have n0: "n \<noteq> 0" using False r by auto
  have lo: "1 / 2 ^ 18 \<le> \<bar>r\<bar>"
  proof -
    have "1 \<le> \<bar>n\<bar>" using n0 by simp
    then have "1 \<le> \<bar>real_of_int n\<bar>" by linarith
    then show ?thesis unfolding r by (simp add: divide_right_mono)
  qed
  have hi: "\<bar>r\<bar> < 64" using assms(1) by (simp add: small_dyadic_def)
  define L where "L = \<lfloor>log 2 \<bar>r\<bar>\<rfloor>"
  have rpos: "0 < \<bar>r\<bar>" using False by simp
  have "log 2 \<bar>r\<bar> < 6"
    using hi rpos by (simp add: log_less_iff)
  then have L6: "L \<le> 5" unfolding L_def by linarith
  define E where "E = max L emin - (int p - 1)"
  have E: "E \<le> - 18" using L6 assms(2,3) unfolding E_def by linarith
  define k where "k = nat (- 18 - E)"
  have q: "2 powr real_of_int E = 1 / (2 ^ 18 * 2 ^ k)"
  proof -
    have "real_of_int E = - real (18 + k)" using E unfolding k_def by simp
    then have "2 powr real_of_int E = 2 powr (- real (18 + k))" by simp
    also have "\<dots> = 1 / 2 powr real (18 + k)" by (rule powr_minus_divide)
    also have "\<dots> = 1 / 2 ^ (18 + k)" using powr_realpow [of "2::real" "18 + k"] by simp
    finally show ?thesis by (simp add: power_add)
  qed
  have d: "r / 2 powr real_of_int E = of_int (n * 2 ^ k)"
    unfolding q r by simp
  have "ieee_nearest p emin r
      = of_int (round_half_even (r / 2 powr of_int E)) * 2 powr of_int E"
    unfolding ieee_nearest_def Let_def L_def E_def by (simp only: False if_False)
  also have "\<dots> = of_int (n * 2 ^ k) * 2 powr of_int E"
    by (simp only: d round_half_even_of_int)
  also have "\<dots> = r"
    unfolding q r by simp
  finally show ?thesis .
qed

lemma f32_round_small_dyadic: "small_dyadic r \<Longrightarrow> f32_round r = F32 r"
proof -
  assume d: "small_dyadic r"
  then have "ieee_nearest 24 (-126) r = r" by (rule ieee_nearest_small_dyadic) simp_all
  moreover have "\<bar>r\<bar> < 2 ^ 128" using d by (simp add: small_dyadic_def)
  ultimately show ?thesis by (simp add: f32_round_def)
qed

lemma f64_nearest_small_dyadic: "small_dyadic r \<Longrightarrow> f64_nearest r = r"
  unfolding f64_nearest_def by (rule ieee_nearest_small_dyadic) simp_all

lemma floor_log2_eqI:
  assumes "0 < x" and "2 powr of_int e \<le> x" and "x < 2 powr of_int (e + 1)"
  shows "\<lfloor>log 2 x\<rfloor> = e"
proof -
  have "of_int e \<le> log 2 x" using assms(1,2) by (simp add: le_log_iff)
  moreover have "log 2 x < of_int (e + 1)" using assms(1,3) by (simp add: log_less_iff)
  ultimately show ?thesis by linarith
qed

text \<open>The rounding of a number whose binary exponent is known.\<close>

lemma ieee_nearest_eval:
  assumes "r \<noteq> 0" and "2 powr of_int e \<le> \<bar>r\<bar>" and "\<bar>r\<bar> < 2 powr of_int (e + 1)"
    and "emin \<le> e"
  shows "ieee_nearest p emin r
         = of_int (round_half_even (r / 2 powr of_int (e - (int p - 1))))
           * 2 powr of_int (e - (int p - 1))"
proof -
  have "\<lfloor>log 2 \<bar>r\<bar>\<rfloor> = e"
    using assms(1-3) by (intro floor_log2_eqI) simp_all
  then have "max \<lfloor>log 2 \<bar>r\<bar>\<rfloor> emin = e" using assms(4) by simp
  then show ?thesis
    unfolding ieee_nearest_def Let_def by (simp only: assms(1) if_False)
qed

text \<open>From \<open>2 ^ 128\<close> on, a power of two overflows.\<close>

lemma f32_round_pow2_overflow:
  assumes "128 \<le> n"
  shows "f32_round (2 ^ n) = PosInf" and "f32_round (- (2 ^ n)) = NegInf"
proof -
  have e: "2 powr real n = 2 ^ n"
    by (rule powr_realpow) simp
  have e1: "2 powr (real n + 1) = 2 * 2 ^ n"
    using powr_realpow [of "2::real" "Suc n"] by (simp add: add.commute)
  have q: "2 powr real_of_int (int n - (int 24 - 1)) = 2 ^ (n - 23)"
  proof -
    have "real_of_int (int n - (int 24 - 1)) = real (n - 23)" using assms by simp
    then have "2 powr real_of_int (int n - (int 24 - 1)) = 2 powr real (n - 23)"
      by (rule arg_cong)
    also have "\<dots> = 2 ^ (n - 23)" by (rule powr_realpow) simp
    finally show ?thesis .
  qed
  have s: "(2::real) ^ n = 2 ^ 23 * 2 ^ (n - 23)"
  proof -
    have "n = 23 + (n - 23)" using assms by simp
    then have "(2::real) ^ n = 2 ^ (23 + (n - 23))" by (rule arg_cong)
    then show ?thesis by (simp only: power_add)
  qed
  have d: "(2::real) ^ n / 2 ^ (n - 23) = of_int (2 ^ 23)"
    unfolding s by simp
  have d': "- ((2::real) ^ n) / 2 ^ (n - 23) = of_int (- (2 ^ 23))"
    unfolding s by simp
  have big: "(2::real) ^ 128 \<le> 2 ^ n" using assms by (intro power_increasing) simp_all
  have v: "ieee_nearest 24 (-126) (2 ^ n) = 2 ^ n"
  proof -
    have "ieee_nearest 24 (-126) (2 ^ n)
        = of_int (round_half_even (2 ^ n / 2 powr of_int (int n - (int 24 - 1))))
           * 2 powr of_int (int n - (int 24 - 1))"
      by (rule ieee_nearest_eval) (simp_all add: e e1)
    also have "\<dots> = of_int (2 ^ 23) * 2 ^ (n - 23)"
      by (simp only: q d round_half_even_of_int)
    finally show ?thesis using s by simp
  qed
  have v': "ieee_nearest 24 (-126) (- (2 ^ n)) = - (2 ^ n)"
  proof -
    have "ieee_nearest 24 (-126) (- (2 ^ n))
        = of_int (round_half_even (- (2 ^ n) / 2 powr of_int (int n - (int 24 - 1))))
           * 2 powr of_int (int n - (int 24 - 1))"
      by (rule ieee_nearest_eval) (simp_all add: e e1)
    also have "\<dots> = of_int (- (2 ^ 23)) * 2 ^ (n - 23)"
      by (simp only: q d' round_half_even_of_int)
    finally show ?thesis using s by simp
  qed
  show "f32_round (2 ^ n) = PosInf"
    using big by (simp add: f32_round_def v)
  show "f32_round (- (2 ^ n)) = NegInf"
    using big by (simp add: f32_round_def v')
qed

text \<open>
  \<open>log\<^sub>2 3\<close> lies between \<open>3/2\<close> and \<open>7/4\<close>, so the double nearest to it lies between \<open>1\<close> and
  \<open>2\<close>: \<^verbatim>\<open>int(math.log2(3))\<close> is \<open>1\<close>.
\<close>

lemma log2_3_lower: "3/2 \<le> log 2 (3::real)"
proof -
  have "(2::real) powr (3/2) = 2 powr (1 + 1/2)" by simp
  also have "\<dots> = 2 powr 1 * 2 powr (1/2)" by (rule powr_add)
  also have "\<dots> = 2 * sqrt 2" by (simp add: powr_half_sqrt)
  also have "\<dots> \<le> 3"
  proof -
    have "sqrt 2 \<le> 3/2" by (rule real_le_lsqrt) (simp_all add: power2_eq_square)
    then show ?thesis by simp
  qed
  finally have "(2::real) powr (3/2) \<le> 3" .
  then show ?thesis by (subst le_log_iff) simp_all
qed

lemma log2_3_upper: "log 2 (3::real) \<le> 7/4"
proof -
  have "3 \<le> (2::real) powr (7/4)"
  proof -
    have "(2::real) powr (7/4) = 2 powr (1 + 1/2 + 1/4)" by simp
    also have "\<dots> = 2 powr (1 + 1/2) * 2 powr (1/4)" by (rule powr_add)
    also have "2 powr (1 + 1/2) = (2::real) powr 1 * 2 powr (1/2)" by (rule powr_add)
    finally have p: "(2::real) powr (7/4) = 2 powr 1 * 2 powr (1/2) * 2 powr (1/4)" .
    have p4: "(2::real) powr (1/4) = sqrt (sqrt 2)"
    proof -
      have "(2::real) powr (1/4) = (2 powr (1/2)) powr (1/2)" by (simp add: powr_powr)
      then show ?thesis by (simp add: powr_half_sqrt)
    qed
    have a: "7/5 \<le> sqrt 2" by (rule real_le_rsqrt) (simp add: power2_eq_square)
    have b: "11/10 \<le> sqrt (sqrt 2)"
    proof (rule real_le_rsqrt)
      have "(11/10)\<^sup>2 \<le> (7/5::real)" by (simp add: power2_eq_square)
      also note a
      finally show "(11/10)\<^sup>2 \<le> sqrt 2" .
    qed
    have "(7/5) * (11/10) \<le> sqrt 2 * sqrt (sqrt 2)"
      by (rule mult_mono [OF a b]) simp_all
    then have "2 * ((7/5) * (11/10)) \<le> 2 * (sqrt 2 * sqrt (sqrt 2))"
      by (rule mult_left_mono) simp
    moreover have "(2::real) powr (7/4) = 2 * (sqrt 2 * sqrt (sqrt 2))"
      unfolding p p4 by (simp add: powr_half_sqrt)
    ultimately show ?thesis by simp
  qed
  then show ?thesis by (subst log_le_iff) simp_all
qed

lemma f64_log2_3: "\<lfloor>f64_nearest (log 2 (f64_nearest 3))\<rfloor> = 1"
proof -
  have three: "f64_nearest 3 = 3"
    by (rule f64_nearest_small_dyadic) (simp add: small_dyadic_def)
  define r where "r = log 2 (3::real)"
  have lo: "3/2 \<le> r" and hi: "r \<le> 7/4" unfolding r_def by (rule log2_3_lower log2_3_upper)+
  define q :: real where "q = 2 powr of_int (0 - (int 53 - 1))"
  have q: "q = 1 / 2 ^ 52" unfolding q_def by (simp add: powr_minus_divide)
  have e: "f64_nearest r = of_int (round_half_even (r / q)) * q"
    unfolding f64_nearest_def q_def
    by (rule ieee_nearest_eval) (use lo hi in simp_all)
  have "r / q - 1/2 \<le> of_int (round_half_even (r / q))"
    and "of_int (round_half_even (r / q)) \<le> r / q + 1/2"
    by (rule round_half_even_bounds)+
  then have "(r / q - 1/2) * q \<le> f64_nearest r" and "f64_nearest r \<le> (r / q + 1/2) * q"
    unfolding e q by (simp_all add: divide_right_mono)
  then have "r - q / 2 \<le> f64_nearest r" and "f64_nearest r \<le> r + q / 2"
    unfolding q by (simp_all add: field_simps)
  then have "1 \<le> f64_nearest r" and "f64_nearest r < 2"
    using lo hi unfolding q by simp_all
  then show ?thesis unfolding three r_def [symmetric] by linarith
qed

section \<open>Evaluation in single precision\<close>

lemma f32_env_sel:
  "fadd f32_env = f32_add" "fsub f32_env = f32_sub" "fmul f32_env = f32_mul"
  "fdiv f32_env = f32_div" "fle f32_env = f32_le" "flt f32_env = f32_lt"
  "round_long f32_env = f32_round_long"
  by (simp_all add: f32_env_def)

lemma f32_of_py: "small_dyadic r \<Longrightarrow> of_py f32_env r = F32 r"
  by (simp add: f32_env_def f64_nearest_small_dyadic f32_round_small_dyadic)

lemma f32_of_pyint: "small_dyadic (of_int n) \<Longrightarrow> of_pyint f32_env n = F32 (of_int n)"
  by (simp add: f32_env_def f32_round_small_dyadic)

lemma f32_of_mask: "of_mask f32_env m = F32 (if m then 1 else 0)"
proof -
  have "small_dyadic (of_int (if m then 1 else 0))" by (simp add: small_dyadic_def)
  then have "of_pyint f32_env (if m then 1 else 0) = F32 (of_int (if m then 1 else 0))"
    by (rule f32_of_pyint)
  then show ?thesis by (simp add: of_mask_def)
qed

lemma f32_add_NaN [simp]: "f32_add a NaN = NaN"
  by (cases a) simp_all



lemma f32_log2_trunc_2: "log2_trunc f32_env 2 = 1"
proof -
  have "f64_nearest 2 = 2" "f64_nearest 1 = 1"
    by (rule f64_nearest_small_dyadic, simp add: small_dyadic_def)+
  then show ?thesis by (simp add: f32_env_def)
qed

lemma f32_log2_trunc_3: "log2_trunc f32_env 3 = 1"
  using f64_log2_3 by (simp add: f32_env_def)

lemma f32_log2_trunc_4: "log2_trunc f32_env 4 = 2"
proof -
  have "f64_nearest 4 = 4" "f64_nearest 2 = 2"
    by (rule f64_nearest_small_dyadic, simp add: small_dyadic_def)+
  moreover have "log 2 (4::real) = 2"
    using log_nat_power [of 2 2 2] by simp
  ultimately show ?thesis by (simp add: f32_env_def)
qed

text \<open>An integer of at most \<open>p\<close> bits is a float of precision \<open>p\<close>.\<close>

lemma ieee_nearest_of_int:
  assumes "\<bar>n\<bar> < 2 ^ p" and "emin \<le> 0"
  shows "ieee_nearest p emin (of_int n) = of_int n"
proof (cases "n = 0")
  case True
  then show ?thesis by (simp add: ieee_nearest_def)
next
  case False
  define r :: real where "r = of_int n"
  have r0: "r \<noteq> 0" using False by (simp add: r_def)
  have lo: "1 \<le> \<bar>r\<bar>"
  proof -
    have "1 \<le> \<bar>n\<bar>" using False by simp
    then show ?thesis unfolding r_def by linarith
  qed
  have hi: "\<bar>r\<bar> < 2 ^ p"
  proof -
    have "real_of_int \<bar>n\<bar> < real_of_int (2 ^ p)" using assms(1) by (simp only: of_int_less_iff)
    then show ?thesis by (simp add: r_def)
  qed
  define L where "L = \<lfloor>log 2 \<bar>r\<bar>\<rfloor>"
  have "0 \<le> log 2 \<bar>r\<bar>" using lo by simp
  then have L0: "0 \<le> L" unfolding L_def by linarith
  have "\<bar>r\<bar> < 2 powr real p" using hi by (simp add: powr_realpow)
  then have "log 2 \<bar>r\<bar> < real p" using lo by (simp add: log_less_iff)
  then have Lp: "L \<le> int p - 1" unfolding L_def by linarith
  define E where "E = max L emin - (int p - 1)"
  have E: "E \<le> 0" using Lp L0 assms(2) unfolding E_def by linarith
  define k where "k = nat (- E)"
  have q: "2 powr real_of_int E = 1 / 2 ^ k"
  proof -
    have "real_of_int E = - real k" using E unfolding k_def by simp
    then have "2 powr real_of_int E = 2 powr (- real k)" by simp
    also have "\<dots> = 1 / 2 powr real k" by (rule powr_minus_divide)
    also have "\<dots> = 1 / 2 ^ k" using powr_realpow [of "2::real" k] by simp
    finally show ?thesis .
  qed
  have d: "r / 2 powr real_of_int E = of_int (n * 2 ^ k)"
    unfolding q r_def by simp
  have "ieee_nearest p emin r
      = of_int (round_half_even (r / 2 powr of_int E)) * 2 powr of_int E"
    unfolding ieee_nearest_def Let_def L_def E_def by (simp only: r0 if_False)
  also have "\<dots> = of_int (n * 2 ^ k) * 2 powr of_int E"
    by (simp only: d round_half_even_of_int)
  also have "\<dots> = r"
    unfolding q r_def by simp
  finally show ?thesis unfolding r_def .
qed

lemma f64_nearest_pow2: "f64_nearest (2 ^ k) = 2 ^ k"
proof -
  have e: "2 powr real k = 2 ^ k" by (rule powr_realpow) simp
  have e1: "2 powr (real k + 1) = 2 * 2 ^ k"
    using powr_realpow [of "2::real" "Suc k"] by (simp add: add.commute)
  have q: "(2::real) ^ k / 2 powr real_of_int (int k - (int 53 - 1)) = of_int (2 ^ 52)"
  proof -
    have "(2::real) ^ k / 2 powr real_of_int (int k - (int 53 - 1))
        = 2 powr real k / 2 powr (real k - 52)" by (simp add: e)
    also have "\<dots> = 2 powr (real k - (real k - 52))" by (rule powr_diff [symmetric])
    also have "\<dots> = 2 powr real (52::nat)" by simp
    also have "\<dots> = 2 ^ 52" by (rule powr_realpow) simp
    finally show ?thesis by simp
  qed
  have m: "of_int (2 ^ 52) * 2 powr real_of_int (int k - (int 53 - 1)) = (2::real) ^ k"
  proof -
    have "of_int (2 ^ 52) * 2 powr real_of_int (int k - (int 53 - 1))
        = 2 powr real (52::nat) * 2 powr (real k - 52)"
      using powr_realpow [of "2::real" 52] by simp
    also have "\<dots> = 2 powr (real (52::nat) + (real k - 52))" by (rule powr_add [symmetric])
    also have "\<dots> = 2 powr real k" by simp
    finally show ?thesis by (simp only: e)
  qed
  have "ieee_nearest 53 (-1022) (2 ^ k)
      = of_int (round_half_even (2 ^ k / 2 powr of_int (int k - (int 53 - 1))))
         * 2 powr of_int (int k - (int 53 - 1))"
    by (rule ieee_nearest_eval) (simp_all add: e e1)
  also have "\<dots> = 2 ^ k"
    by (simp only: q round_half_even_of_int m)
  finally show ?thesis by (simp only: f64_nearest_def)
qed

text \<open>
  \<^verbatim>\<open>int(math.log2(2 ** k))\<close> is \<open>k\<close>: a power of two is a double, its logarithm is the
  integer \<open>k\<close>, and an integer below \<open>2\<^sup>5\<^sup>3\<close> is a double. At a power of two the level of
  the integrals is therefore the exact logarithm of the stride ratio.
\<close>

lemma f32_log2_trunc_pow2:
  assumes "k < 2 ^ 53"
  shows "log2_trunc f32_env (2 ^ k) = int k"
proof -
  have "\<bar>int k\<bar> < 2 ^ 53" using assms by simp
  then have "ieee_nearest 53 (-1022) (of_int (int k)) = of_int (int k)"
    by (rule ieee_nearest_of_int) simp
  then have c: "f64_nearest (real k) = real k" by (simp add: f64_nearest_def)
  show ?thesis
    by (simp add: f32_env_def f64_nearest_pow2 c)
qed

lemmas f32_eval =
  f32_env_sel f32_of_py f32_of_pyint f32_of_mask f32_round_small_dyadic f32_sub_def
  small_dyadic_def

section \<open>Properties of the basis evaluation\<close>

text \<open>Inside the support and away from overflow the masks select one polynomial.\<close>

lemma evaluate_single_f32_values:
  "evaluate_single f32_env (F32 (1/4)) = F32 (11/8)"
  "evaluate_single f32_env (F32 0) = F32 (3/2)"
  "evaluate_single f32_env (F32 1) = F32 (1/4)"
  "evaluate_single f32_env (F32 (-(3/2))) = F32 0"
  "evaluate_single f32_env (F32 (3/2)) = F32 0"
  "evaluate_single f32_env (F32 5) = F32 0"
  by (simp_all add: evaluate_single_def Let_def f32_eval)

lemma evaluate_derivative_single_f32_values:
  "evaluate_derivative_single f32_env (F32 (1/4)) = F32 (-1)"
  "evaluate_derivative_single f32_env (F32 0) = F32 0"
  "evaluate_derivative_single f32_env (F32 1) = F32 (-1)"
  "evaluate_derivative_single f32_env (F32 (-1)) = F32 1"
  "evaluate_derivative_single f32_env (F32 5) = F32 0"
  by (simp_all add: evaluate_derivative_single_def Let_def f32_eval)

text \<open>
  Claim C4. The class documents \<open>B\<^sup>2(x) = 0\<close> for \<open>x < -1.5\<close> and for \<open>1.5 \<le> x\<close>, and the claim
  says the same. \<^verbatim>\<open>evaluate_single\<close> does not select a polynomial by its mask: it
  multiplies every polynomial by its mask. At the float \<open>2\<^sup>7\<^sup>0\<close>, which lies outside the
  support, the middle polynomial \<open>-2 x\<^sup>2 + 1.5\<close> overflows to \<open>-inf\<close>, its product with the
  mask \<open>0\<close> is NaN, and so is the sum: the code returns NaN where the documentation and
  the claim say \<open>0\<close>.
\<close>

theorem evaluate_single_overflow:
  "evaluate_single f32_env (F32 (2 ^ 70)) = NaN"
proof -
  have sq: "f32_round (2 ^ 70 * 2 ^ 70) = PosInf"
    using f32_round_pow2_overflow(1) [of 140] by simp
  have two: "of_pyint f32_env (- 2) = F32 (- 2)"
    using f32_of_pyint [of "- 2"] by (simp add: small_dyadic_def)
  have c: "of_py f32_env (3/2) = F32 (3/2)" "of_py f32_env (1/2) = F32 (1/2)"
    "of_py f32_env (- (1/2)) = F32 (- (1/2))"
    by (rule f32_of_py, simp add: small_dyadic_def)+
  have b2: "f32_add (f32_mul (of_pyint f32_env (- 2))
              (f32_mul (F32 (2 ^ 70)) (F32 (2 ^ 70)))) (of_py f32_env (3/2)) = NegInf"
    unfolding two c by (simp only: f32_mul.simps sq) simp
  have m2: "(f32_le (of_py f32_env (- (1/2))) (F32 (2 ^ 70))
               \<and> f32_lt (F32 (2 ^ 70)) (of_py f32_env (1/2))) = False"
    unfolding c by simp
  have t2: "f32_mul (of_mask f32_env False) NegInf = NaN"
    by (simp add: f32_of_mask)
  show ?thesis
    unfolding evaluate_single_def Let_def f32_env_sel
    by (simp only: b2 m2 t2 f32_add_NaN f32_add.simps)
qed

text \<open>
  Claim C5. The derivative of a function that is \<open>0\<close> outside \<open>[-1.5, 1.5)\<close> is \<open>0\<close> there,
  and the claim says so. \<^verbatim>\<open>evaluate_derivative_single\<close> multiplies by the masks as
  \<^verbatim>\<open>evaluate_single\<close> does (the same defect): at the float \<open>2\<^sup>1\<^sup>2\<^sup>7\<close> the middle polynomial
  \<open>-4 x\<close> overflows to \<open>-inf\<close>, its product with the mask \<open>0\<close> is NaN, and the code returns
  NaN where the claim says \<open>0\<close>.
\<close>

theorem evaluate_derivative_single_overflow:
  "evaluate_derivative_single f32_env (F32 (2 ^ 127)) = NaN"
proof -
  have ov: "f32_round (- 4 * 2 ^ 127) = NegInf"
    using f32_round_pow2_overflow(2) [of 129] by simp
  have four: "of_pyint f32_env (- 4) = F32 (- 4)"
    using f32_of_pyint [of "- 4"] by (simp add: small_dyadic_def)
  have c: "of_py f32_env (1/2) = F32 (1/2)" "of_py f32_env (- (1/2)) = F32 (- (1/2))"
    by (rule f32_of_py, simp add: small_dyadic_def)+
  have b2: "f32_mul (of_pyint f32_env (- 4)) (F32 (2 ^ 127)) = NegInf"
    unfolding four by (simp only: f32_mul.simps ov)
  have m2: "(f32_le (of_py f32_env (- (1/2))) (F32 (2 ^ 127))
               \<and> f32_lt (F32 (2 ^ 127)) (of_py f32_env (1/2))) = False"
    unfolding c by simp
  have t2: "f32_mul (of_mask f32_env False) NegInf = NaN"
    by (simp add: f32_of_mask)
  show ?thesis
    unfolding evaluate_derivative_single_def Let_def f32_env_sel
    by (simp only: b2 m2 t2 f32_add_NaN f32_add.simps)
qed

text \<open>
  Claim C6. For every batch \<open>xyz\<close>, every query \<open>i\<close> of it with coordinates \<open>(x, y, z)\<close> and
  every non-zero integer stride: \<^verbatim>\<open>evaluate\<close> returns the product of the three per-axis
  kernel values, and component \<open>k\<close> of \<^verbatim>\<open>evaluate_derivative\<close> is the kernel derivative
  along axis \<open>k\<close> divided by the stride, times the kernel values along the other two axes.
  Both results have one entry per query. The products are the tensor products of the
  source, taken from the left, in whatever arithmetic \<open>F\<close> the tensors have.
\<close>

theorem evaluate_separable:
  assumes "i < length xyz" and "xyz ! i = (x, y, z)" and "stride \<noteq> 0"
  shows "length (evaluate F feat xyz feat_ids) = length xyz
    \<and> evaluate F feat xyz feat_ids ! i
        = fmul F (fmul F (evaluate_single F x) (evaluate_single F y)) (evaluate_single F z)
    \<and> length (evaluate_derivative F feat xyz feat_ids stride) = length xyz
    \<and> evaluate_derivative F feat xyz feat_ids stride ! i
        = (fmul F (fmul F (fdiv F (evaluate_derivative_single F x) (of_pyint F stride))
                     (evaluate_single F y)) (evaluate_single F z),
           fmul F (fmul F (evaluate_single F x)
                     (fdiv F (evaluate_derivative_single F y) (of_pyint F stride)))
                  (evaluate_single F z),
           fmul F (fmul F (evaluate_single F x) (evaluate_single F y))
                  (fdiv F (evaluate_derivative_single F z) (of_pyint F stride)))"
  using assms by (simp add: evaluate_def evaluate_derivative_def Let_def)

text \<open>Two queries in single precision; the second one is \<open>(1/4, 0, 1)\<close>, the stride is \<open>2\<close>.\<close>

theorem evaluate_separable_witness:
  "evaluate f32_env () [(F32 0, F32 1, F32 (-1)), (F32 (1/4), F32 0, F32 1)] () ! 1
     = F32 (33/64)
   \<and> evaluate_derivative f32_env () [(F32 0, F32 1, F32 (-1)), (F32 (1/4), F32 0, F32 1)] () 2
       ! 1 = (F32 (-(3/16)), F32 0, F32 (-(33/32)))"
proof -
  have "evaluate f32_env () [(F32 0, F32 1, F32 (-1)), (F32 (1/4), F32 0, F32 1)] () ! 1
      = fmul f32_env (fmul f32_env (evaluate_single f32_env (F32 (1/4)))
          (evaluate_single f32_env (F32 0))) (evaluate_single f32_env (F32 1))
    \<and> evaluate_derivative f32_env ()
         [(F32 0, F32 1, F32 (-1)), (F32 (1/4), F32 0, F32 1)] () 2 ! 1
      = (fmul f32_env (fmul f32_env
            (fdiv f32_env (evaluate_derivative_single f32_env (F32 (1/4))) (of_pyint f32_env 2))
            (evaluate_single f32_env (F32 0))) (evaluate_single f32_env (F32 1)),
         fmul f32_env (fmul f32_env (evaluate_single f32_env (F32 (1/4)))
            (fdiv f32_env (evaluate_derivative_single f32_env (F32 0)) (of_pyint f32_env 2)))
            (evaluate_single f32_env (F32 1)),
         fmul f32_env (fmul f32_env (evaluate_single f32_env (F32 (1/4)))
            (evaluate_single f32_env (F32 0)))
            (fdiv f32_env (evaluate_derivative_single f32_env (F32 1)) (of_pyint f32_env 2)))"
    using evaluate_separable
      [of 1 "[(F32 0, F32 1, F32 (-1)), (F32 (1/4), F32 0, F32 1)]" "F32 (1/4)" "F32 0" "F32 1"
          2 f32_env "()" "()"]
    by simp
  then show ?thesis
    by (simp add: evaluate_single_f32_values evaluate_derivative_single_f32_values f32_eval)
qed

section \<open>Properties of the primitives\<close>

lemma bind_exn_Inl [simp]: "bind_exn (Inl e) f = Inl e"
  by (simp add: bind_exn_def)

lemma bind_exn_Inr [simp]: "bind_exn (Inr v) f = f v"
  by (simp add: bind_exn_def)

lemma map3_simp [simp]: "map3 f (a, b, c) = (f a, f b, f c)"
  by (simp add: map3_def)

lemma py_getitem_in:
  "0 \<le> i \<Longrightarrow> i < int (length xs) \<Longrightarrow> py_getitem xs i = Inr (xs ! nat i)"
  by (simp add: py_getitem_def Let_def)

lemma clamp_in_range:
  "0 < n \<Longrightarrow> 0 \<le> clamp 0 (n - 1) a \<and> clamp 0 (n - 1) a < n"
  by (auto simp add: clamp_def)

lemma clamp_id: "0 \<le> a \<Longrightarrow> a < n \<Longrightarrow> clamp 0 (n - 1) a = a"
  by (auto simp add: clamp_def)

lemma map2_map_map: "map2 f (map g xs) (map h xs) = map (\<lambda>x. f (g x) (h x)) xs"
  by (induction xs) auto

lemma round_half_even_values:
  "round_half_even 5 = 5" "round_half_even (11/2) = 6" "round_half_even 1 = 1"
  "round_half_even 15 = 15" "round_half_even (7/2) = 4"
  "round_half_even (9/2) = 4" "round_half_even (5/2) = 2"
  "round_half_even (17/2) = 8" "round_half_even 2 = 2"
  "round_half_even 3 = 3" "round_half_even 4 = 4" "round_half_even 0 = 0"
  "round_half_even 6 = 6" "round_half_even (3/2) = 2" "round_half_even (1/2) = 0"
  "round_half_even 7 = 7" "round_half_even 8 = 8"
  by (simp_all add: round_half_even_def Let_def)


section \<open>The gradient-gradient integral\<close>

text \<open>After the clamp every lookup succeeds, whatever the rounded index was.\<close>

lemma index_batch_clamped:
  assumes "0 < n" "n \<le> int (length row)"
  shows "index_batch row (map (map3 (clamp 0 (n - 1))) qs)
         = Inr (map (map3 (\<lambda>a. row ! nat (clamp 0 (n - 1) a))) qs)"
proof (induction qs)
  case Nil
  show ?case by simp
next
  case (Cons q qs)
  obtain a b c where q: "q = (a, b, c)" by (cases q)
  have r: "\<And>v. py_getitem row (clamp 0 (n - 1) v) = Inr (row ! nat (clamp 0 (n - 1) v))"
    using clamp_in_range [OF assms(1)] assms(2)
    by (intro py_getitem_in) (auto intro: order.strict_trans2)
  show ?case
    by (simp add: Cons.IH q index3_def r)
qed

lemma index_batch_clamped_o:
  assumes "0 < n" "n \<le> int (length row)"
  shows "index_batch row (map (map3 (clamp 0 (n - 1)) \<circ> g) xs)
         = Inr (map (map3 (\<lambda>a. row ! nat (clamp 0 (n - 1) a)) \<circ> g) xs)"
  using index_batch_clamped [OF assms, of "map g xs"] by simp

text \<open>
  The whole call in closed form, in any arithmetic: once the assertion and the logarithm
  pass and both tables have the row of the level (the self-integral row not empty, the
  derivative row not shorter), the call returns \<open>grad_grad_query\<close> for every query.
\<close>

lemma ddp_general:
  assumes s: "s \<le> t" "s \<noteq> 0" "0 < t div s"
    and lv: "log2_trunc F (t div s) = level"
    and g1: "py_getitem (SHIFTED_SELF_INTEGRAL T) level = Inr ssi"
    and g2: "py_getitem (SHIFTED_DERIVATIVE_INTEGRAL T) level = Inr sdi"
    and len: "0 < length ssi" "length ssi \<le> length sdi"
  shows "integrate_deriv_deriv_product F T rel_pos s t
         = Inr (map (grad_grad_query F ssi sdi (t div s) s t) rel_pos)"
proof -
  have l: "int_log2 F (t div s) = Inr level" using s lv by (simp add: int_log2_def)
  have n: "0 < int (length (map (of_py F) ssi))"
    "int (length (map (of_py F) ssi)) \<le> int (length (map (of_py F) ssi))"
    "int (length (map (of_py F) ssi)) \<le> int (length (map (of_py F) sdi))"
    using len by simp_all
  have i1: "\<And>g xs. index_batch (map (of_py F) ssi)
                (map (map3 (clamp 0 (int (length ssi) - 1)) \<circ> g) xs)
      = Inr (map (map3 (\<lambda>a. map (of_py F) ssi ! nat (clamp 0 (int (length ssi) - 1) a)) \<circ> g)
               xs)"
    using index_batch_clamped_o [OF n(1) n(2)] by simp
  have i2: "\<And>g xs. index_batch (map (of_py F) sdi)
                (map (map3 (clamp 0 (int (length ssi) - 1)) \<circ> g) xs)
      = Inr (map (map3 (\<lambda>a. map (of_py F) sdi ! nat (clamp 0 (int (length ssi) - 1) a)) \<circ> g)
               xs)"
    using index_batch_clamped_o [OF n(1) n(3)] by simp
  show ?thesis
    using s(1,2) len
    apply (simp add: integrate_deriv_deriv_product_def Let_def l g1 g2 i1 i2
        masked_zero_def map2_map_map)
    apply (auto simp add: grad_grad_query_def grad_grad_terms_def grad_grad_index_def Let_def
        clamp_id)
    done
qed

lemma sample_rows:
  "SHIFTED_SELF_INTEGRAL sample_tables ! 0 = [1/16, 3/4, 2, 3/4, 1/16]"
  "SHIFTED_DERIVATIVE_INTEGRAL sample_tables ! 0 = [-1/4, -1/2, 3/2, -1/2, -1/4]"
  "SHIFTED_SELF_INTEGRAL sample_tables ! 1 = [1/32, 1/4, 3/4, 5/4, 5/4, 3/4, 1/4, 1/32]"
  "SHIFTED_DERIVATIVE_INTEGRAL sample_tables ! 1
     = [-3/16, -3/8, -3/4, 3/2, 3/2, -3/4, -3/8, -3/16]"
  "SHIFTED_SELF_INTEGRAL sample_tables ! Suc 0 = [1/32, 1/4, 3/4, 5/4, 5/4, 3/4, 1/4, 1/32]"
  "SHIFTED_DERIVATIVE_INTEGRAL sample_tables ! Suc 0
     = [-3/16, -3/8, -3/4, 3/2, 3/2, -3/4, -3/8, -3/16]"
  "length (SHIFTED_SELF_INTEGRAL sample_tables) = 2"
  "length (SHIFTED_DERIVATIVE_INTEGRAL sample_tables) = 2"
  by (simp_all add: sample_tables_def)

lemma sample_getitem:
  "py_getitem (SHIFTED_SELF_INTEGRAL sample_tables) 1
     = Inr [1/32, 1/4, 3/4, 5/4, 5/4, 3/4, 1/4, 1/32]"
  "py_getitem (SHIFTED_DERIVATIVE_INTEGRAL sample_tables) 1
     = Inr [-3/16, -3/8, -3/4, 3/2, 3/2, -3/4, -3/8, -3/16]"
  by (simp_all add: sample_tables_def py_getitem_def)

text \<open>
  Claim C7. For every batch \<open>rel_pos\<close> and every pair of strides with
  \<open>source_stride > target_stride\<close>, \<^verbatim>\<open>integrate_deriv_deriv_product\<close> fails at its first
  statement and computes nothing. The exception is Python's \<^verbatim>\<open>AssertionError\<close>, which is
  what the specification calls an invalid argument.
\<close>

theorem integrate_deriv_deriv_product_assert:
  "target_stride < source_stride \<Longrightarrow>
   integrate_deriv_deriv_product F T rel_pos source_stride target_stride = Inl AssertionError"
  by (simp add: integrate_deriv_deriv_product_def)

theorem integrate_deriv_deriv_product_assert_witness:
  "(1::int) < 2
   \<and> integrate_deriv_deriv_product f32_env sample_tables [(F32 0, F32 0, F32 0)] 2 1
       = Inl AssertionError"
  using integrate_deriv_deriv_product_assert
    [of 1 2 f32_env sample_tables "[(F32 0, F32 0, F32 0)]"] by simp

text \<open>
  Claim C8 says that a stride ratio that is not a power of two is rejected. The code has
  no such check: with strides \<open>1\<close> and \<open>3\<close> it takes \<open>mult = 3\<close>, the level
  \<^verbatim>\<open>int(math.log2(3))\<close>, which is \<open>1\<close>, the index \<open>round(0 + 4.5 + 0.5) = 5\<close>, and returns a
  number.
\<close>

theorem integrate_deriv_deriv_product_ratio3_counterexample:
  "integrate_deriv_deriv_product f32_env sample_tables [(F32 0, F32 0, F32 0)] 1 3
     = Inr [F32 (-(27/64))]"
proof -
  have "integrate_deriv_deriv_product f32_env sample_tables [(F32 0, F32 0, F32 0)] 1 3
        = Inr (map (grad_grad_query f32_env [1/32, 1/4, 3/4, 5/4, 5/4, 3/4, 1/4, 1/32]
                      [-3/16, -3/8, -3/4, 3/2, 3/2, -3/4, -3/8, -3/16] (3 div 1) 1 3)
                 [(F32 0, F32 0, F32 0)])"
    by (rule ddp_general [where level = 1]) (simp_all add: sample_getitem f32_log2_trunc_3)
  also have "\<dots> = Inr [F32 (-(27/64))]"
    by (simp add: grad_grad_query_def grad_grad_terms_def grad_grad_index_def Let_def
        f32_eval round_half_even_values)
  finally show ?thesis .
qed

text \<open>
  Claim C8, amended. \<^verbatim>\<open>integrate_deriv_deriv_product\<close> does not validate the stride ratio.
  For any strides with \<open>source_stride \<le> target_stride\<close> and a positive
  \<open>mult = target_stride // source_stride\<close> (floor division), power of two or not, it takes
  the level \<^verbatim>\<open>int(math.log2(mult))\<close>; when both shifted tables have that row (the
  self-integral row not empty, the derivative row at least as long) the call returns, for
  every query, the masked sum of products \<open>grad_grad_query\<close>.
\<close>

theorem integrate_deriv_deriv_product_any_ratio:
  assumes "source_stride \<le> target_stride" and "source_stride \<noteq> 0"
    and "0 < target_stride div source_stride"
    and "log2_trunc F (target_stride div source_stride) = level"
    and "py_getitem (SHIFTED_SELF_INTEGRAL T) level = Inr ssi"
    and "py_getitem (SHIFTED_DERIVATIVE_INTEGRAL T) level = Inr sdi"
    and "0 < length ssi" and "length ssi \<le> length sdi"
  shows "integrate_deriv_deriv_product F T rel_pos source_stride target_stride
         = Inr (map (grad_grad_query F ssi sdi (target_stride div source_stride)
                       source_stride target_stride) rel_pos)"
  using assms by (rule ddp_general)

text \<open>
  Strides \<open>2\<close> and \<open>6\<close> (ratio \<open>3\<close>, level \<open>1\<close>) in single precision: the first query is in
  range on every axis, the second has one axis out of range (index \<open>15\<close>, next to \<open>6\<close> and
  \<open>1\<close>).
\<close>

theorem integrate_deriv_deriv_product_any_ratio_witness:
  "integrate_deriv_deriv_product f32_env sample_tables
     [(F32 0, F32 0, F32 0), (F32 (1/2), F32 (-4), F32 10)] 2 6
     = Inr [F32 (-(27/32)), F32 0]"
proof -
  have "integrate_deriv_deriv_product f32_env sample_tables
          [(F32 0, F32 0, F32 0), (F32 (1/2), F32 (-4), F32 10)] 2 6
        = Inr (map (grad_grad_query f32_env [1/32, 1/4, 3/4, 5/4, 5/4, 3/4, 1/4, 1/32]
                      [-3/16, -3/8, -3/4, 3/2, 3/2, -3/4, -3/8, -3/16] (6 div 2) 2 6)
                 [(F32 0, F32 0, F32 0), (F32 (1/2), F32 (-4), F32 10)])"
    by (rule integrate_deriv_deriv_product_any_ratio [where level = 1])
       (simp_all add: sample_getitem f32_log2_trunc_3)
  also have "\<dots> = Inr [F32 (-(27/32)), F32 0]"
    by (simp add: grad_grad_query_def grad_grad_terms_def grad_grad_index_def Let_def
        f32_eval round_half_even_values)
  finally show ?thesis .
qed

text \<open>
  The sums of the index are rounded one by one. For the float \<open>1.5 - 2\<^sup>-\<^sup>2\<^sup>3\<close> and
  \<open>mult = 1\<close> the first sum, \<open>3 - 2\<^sup>-\<^sup>2\<^sup>3\<close>, lies halfway between two floats and becomes \<open>3\<close>;
  the index is \<open>round(3.5) = 4\<close>, where the exact sum \<open>3.5 - 2\<^sup>-\<^sup>2\<^sup>3\<close> would give \<open>3\<close>.
\<close>

lemma f32_round_tie: "f32_round (3/2 - 1 / 2 ^ 23 + 3/2) = F32 3"
proof -
  have v: "ieee_nearest 24 (-126) (3/2 - 1 / 2 ^ 23 + 3/2) = 3"
  proof -
    have "ieee_nearest 24 (-126) (3/2 - 1 / 2 ^ 23 + 3/2)
        = of_int (round_half_even ((3/2 - 1 / 2 ^ 23 + 3/2) / 2 powr of_int (1 - (int 24 - 1))))
           * 2 powr of_int (1 - (int 24 - 1))"
      by (rule ieee_nearest_eval) simp_all
    also have "\<dots> = 3"
      by (simp add: round_half_even_def Let_def powr_minus_divide)
    finally show ?thesis .
  qed
  show ?thesis unfolding f32_round_def Let_def v by simp
qed

lemma grad_grad_index_rounds_sums:
  "grad_grad_index f32_env 1 (F32 (3/2 - 1 / 2 ^ 23)) = 4"
proof -
  have c: "of_py f32_env (3/2) = F32 (3/2)" "of_py f32_env (1/2) = F32 (1/2)"
    by (rule f32_of_py, simp add: small_dyadic_def)+
  have s: "f32_add (F32 (3/2 - 1 / 2 ^ 23)) (F32 (3/2)) = F32 3"
    by (simp only: f32_add.simps f32_round_tie)
  have t: "f32_add (F32 3) (F32 (1/2)) = F32 (7/2)"
    by (simp add: f32_round_small_dyadic small_dyadic_def)
  have "grad_grad_index f32_env 1 (F32 (3/2 - 1 / 2 ^ 23))
      = f32_round_long (f32_add (f32_add (F32 (3/2 - 1 / 2 ^ 23)) (F32 (3/2))) (F32 (1/2)))"
    by (simp add: grad_grad_index_def f32_env_sel c)
  also have "\<dots> = f32_round_long (F32 (7/2))" by (simp only: s t)
  also have "\<dots> = 4" by (simp add: Let_def round_half_even_values)
  finally show ?thesis .
qed

text \<open>
  Strides that are powers of two: \<open>2\<^sup>b div 2\<^sup>a = 2\<^sup>b\<^sup>-\<^sup>a\<close> is the exact ratio of the strides and
  \<open>b - a\<close> its binary logarithm.
\<close>

lemma pow2_div: "a \<le> b \<Longrightarrow> (2::int) ^ b div 2 ^ a = 2 ^ (b - a)"
  by (simp add: power_diff)

lemma pow2_ratio:
  assumes "a \<le> b"
  shows "real_of_int (2 ^ (b - a)) = real_of_int (2 ^ b) / real_of_int (2 ^ a)"
proof -
  have "real_of_int (2 ^ (b - a)) = 2 ^ (b - a)" by simp
  also have "\<dots> = 2 ^ b / 2 ^ a" using assms power_diff [of "2::real" a b] by simp
  finally show ?thesis by simp
qed

lemma grad_grad_terms_valid:
  "0 \<le> grad_grad_index F mult r \<Longrightarrow> grad_grad_index F mult r < int (length ssi) \<Longrightarrow>
   grad_grad_terms F ssi sdi mult s t r
     = (fmul F (of_py F (ssi ! nat (grad_grad_index F mult r))) (of_pyint F s),
        fdiv F (of_py F (sdi ! nat (grad_grad_index F mult r))) (of_pyint F t))"
  by (simp add: grad_grad_terms_def Let_def)

text \<open>
  Claim C1. Let the strides be powers of two, \<open>source_stride = 2\<^sup>a \<le> target_stride = 2\<^sup>b\<close>,
  so that \<open>mult = target_stride / source_stride = 2\<^sup>b\<^sup>-\<^sup>a\<close> and \<open>level = log2 mult = b - a\<close>
  (which is also what \<^verbatim>\<open>int(math.log2(mult))\<close> gives, the logarithm of a power of two
  being exact, as \<open>f32_log2_trunc_pow2\<close> shows of the IEEE instance), and let both shifted tables have the row \<open>level\<close>, the derivative row at
  least as long as the self-integral row. The index of an axis is
  \<open>round(r + mult * 1.5 + 0.5)\<close>, the sums being those of the tensor's arithmetic, in
  this order. For every query \<open>i\<close> of the batch whose three indices lie in
  \<open>[0, len(SHIFTED_SELF_INTEGRAL[level]))\<close>, the call returns one number per query and
  entry \<open>i\<close> is
  \<open>deriv\<^sub>x plain\<^sub>y plain\<^sub>z + plain\<^sub>x deriv\<^sub>y plain\<^sub>z + plain\<^sub>x plain\<^sub>y deriv\<^sub>z\<close> with
  \<open>plain = SHIFTED_SELF_INTEGRAL[level][idx] * source_stride\<close> and
  \<open>deriv = SHIFTED_DERIVATIVE_INTEGRAL[level][idx] / target_stride\<close>, products and sums
  taken from the left in the tensor's arithmetic.
\<close>

theorem integrate_deriv_deriv_product_in_range:
  assumes "source_stride = 2 ^ a" and "target_stride = 2 ^ b" and "a \<le> b"
    and "mult = (2::int) ^ (b - a)" and "level = b - a"
    and "log2_trunc F mult = int level"
    and "level < length (SHIFTED_SELF_INTEGRAL T)"
    and "level < length (SHIFTED_DERIVATIVE_INTEGRAL T)"
    and "ssi = SHIFTED_SELF_INTEGRAL T ! level"
    and "sdi = SHIFTED_DERIVATIVE_INTEGRAL T ! level"
    and "length ssi \<le> length sdi"
    and "i < length rel_pos" and "rel_pos ! i = (x, y, z)"
    and "ix = round_long F (fadd F (fadd F x (of_py F (of_int mult * (3/2)))) (of_py F (1/2)))"
    and "iy = round_long F (fadd F (fadd F y (of_py F (of_int mult * (3/2)))) (of_py F (1/2)))"
    and "iz = round_long F (fadd F (fadd F z (of_py F (of_int mult * (3/2)))) (of_py F (1/2)))"
    and "0 \<le> ix \<and> ix < int (length ssi)"
    and "0 \<le> iy \<and> iy < int (length ssi)"
    and "0 \<le> iz \<and> iz < int (length ssi)"
    and "plain = (\<lambda>k. fmul F (of_py F (ssi ! nat k)) (of_pyint F source_stride))"
    and "deriv = (\<lambda>k. fdiv F (of_py F (sdi ! nat k)) (of_pyint F target_stride))"
  shows "real_of_int mult = real_of_int target_stride / real_of_int source_stride
    \<and> real level = log 2 (real_of_int mult)
    \<and> (\<exists>res. integrate_deriv_deriv_product F T rel_pos source_stride target_stride = Inr res
          \<and> length res = length rel_pos
          \<and> res ! i =
              fadd F (fadd F (fmul F (fmul F (deriv ix) (plain iy)) (plain iz))
                             (fmul F (fmul F (plain ix) (deriv iy)) (plain iz)))
                     (fmul F (fmul F (plain ix) (plain iy)) (deriv iz)))"
proof (intro conjI)
  show "real_of_int mult = real_of_int target_stride / real_of_int source_stride"
    using assms(1-4) by (simp only: pow2_ratio)
  show "real level = log 2 (real_of_int mult)"
    using assms(4,5) by simp
  have d: "target_stride div source_stride = mult"
    using assms(1-4) by (simp add: pow2_div)
  have pos: "source_stride \<le> target_stride" "source_stride \<noteq> 0"
    "0 < target_stride div source_stride"
    using assms(1-3) unfolding d assms(4) by (simp_all add: power_increasing)
  have ne: "0 < length ssi" using assms(17) by auto
  have lv: "log2_trunc F (target_stride div source_stride) = int level"
    unfolding d by (rule assms(6))
  have g1: "py_getitem (SHIFTED_SELF_INTEGRAL T) (int level) = Inr ssi"
    using assms(7) by (simp add: py_getitem_in assms(9))
  have g2: "py_getitem (SHIFTED_DERIVATIVE_INTEGRAL T) (int level) = Inr sdi"
    using assms(8) by (simp add: py_getitem_in assms(10))
  have call: "integrate_deriv_deriv_product F T rel_pos source_stride target_stride
      = Inr (map (grad_grad_query F ssi sdi mult source_stride target_stride) rel_pos)"
    using ddp_general [OF pos lv g1 g2 ne assms(11), of rel_pos] by (simp add: d)
  have ix: "ix = grad_grad_index F mult x" and iy: "iy = grad_grad_index F mult y"
    and iz: "iz = grad_grad_index F mult z"
    unfolding assms(14-16) by (simp_all add: grad_grad_index_def)
  have q: "grad_grad_query F ssi sdi mult source_stride target_stride (x, y, z) =
              fadd F (fadd F (fmul F (fmul F (deriv ix) (plain iy)) (plain iz))
                             (fmul F (fmul F (plain ix) (deriv iy)) (plain iz)))
                     (fmul F (fmul F (plain ix) (plain iy)) (deriv iz))"
    using assms(17-19) unfolding ix iy iz assms(20,21)
    by (simp add: grad_grad_query_def grad_grad_terms_valid)
  show "\<exists>res. integrate_deriv_deriv_product F T rel_pos source_stride target_stride = Inr res
          \<and> length res = length rel_pos
          \<and> res ! i =
              fadd F (fadd F (fmul F (fmul F (deriv ix) (plain iy)) (plain iz))
                             (fmul F (fmul F (plain ix) (deriv iy)) (plain iz)))
                     (fmul F (fmul F (plain ix) (plain iy)) (deriv iz))"
    unfolding call using assms(12,13) q by simp
qed

text \<open>
  Strides \<open>2\<close> and \<open>4\<close> in single precision, query \<open>(0, 1, -1)\<close>: indices \<open>4\<close>, \<open>4\<close> (a tie,
  to even), \<open>2\<close>.
\<close>

theorem integrate_deriv_deriv_product_in_range_witness:
  "\<exists>res. integrate_deriv_deriv_product f32_env sample_tables [(F32 0, F32 1, F32 (-1))] 2 4
            = Inr res
      \<and> length res = 1 \<and> res ! 0 = F32 (105/64)"
proof -
  define plain where "plain = (\<lambda>k. fmul f32_env
      (of_py f32_env (SHIFTED_SELF_INTEGRAL sample_tables ! 1 ! nat k)) (of_pyint f32_env 2))"
  define deriv where "deriv = (\<lambda>k. fdiv f32_env
      (of_py f32_env (SHIFTED_DERIVATIVE_INTEGRAL sample_tables ! 1 ! nat k))
      (of_pyint f32_env 4))"
  have v: "plain 4 = F32 (5/2)" "plain 2 = F32 (3/2)" "deriv 4 = F32 (3/8)"
    "deriv 2 = F32 (-(3/16))"
    by (simp_all add: plain_def deriv_def sample_rows f32_eval)
  have "real_of_int 2 = real_of_int 4 / real_of_int 2
    \<and> real 1 = log 2 (real_of_int 2)
    \<and> (\<exists>res. integrate_deriv_deriv_product f32_env sample_tables
                [(F32 0, F32 1, F32 (-1))] 2 4 = Inr res
          \<and> length res = length [(F32 0, F32 1, F32 (-1))]
          \<and> res ! 0 =
              fadd f32_env
                (fadd f32_env (fmul f32_env (fmul f32_env (deriv 4) (plain 4)) (plain 2))
                              (fmul f32_env (fmul f32_env (plain 4) (deriv 4)) (plain 2)))
                (fmul f32_env (fmul f32_env (plain 4) (plain 4)) (deriv 2)))"
    by (rule integrate_deriv_deriv_product_in_range
          [where a = 1 and b = 2 and level = 1 and x = "F32 0" and y = "F32 1"
             and z = "F32 (-1)"])
       (simp_all add: sample_rows f32_log2_trunc_2 f32_eval round_half_even_values
          plain_def deriv_def)
  then show ?thesis
    by (simp add: v f32_eval)
qed




section \<open>The constant-gradient integral\<close>

lemma py_getitem_ok:
  "index_ok (length xs) k \<Longrightarrow> py_getitem xs k = Inr (xs ! wrap_index (length xs) k)"
  by (auto simp add: py_getitem_def index_ok_def wrap_index_def Let_def)


lemma wrap_index_less: "index_ok n k \<Longrightarrow> wrap_index n k < n"
  by (auto simp add: index_ok_def wrap_index_def)

lemma index3_ok:
  "ok3 (length row) q \<Longrightarrow> index3 row q = Inr (map3 (\<lambda>k. row ! wrap_index (length row) k) q)"
  by (cases q) (simp add: ok3_def index3_def py_getitem_ok)


lemma index_batch_ok:
  "\<forall>q\<in>set qs. ok3 (length row) q \<Longrightarrow>
   index_batch row qs = Inr (map (map3 (\<lambda>k. row ! wrap_index (length row) k)) qs)"
  by (induction qs) (simp_all add: index3_ok)


text \<open>The lookup in a row that was converted entry by entry.\<close>

lemma index_batch_map_ok:
  assumes "\<forall>q\<in>set qs. ok3 (length row) q"
  shows "index_batch (map f row) qs
         = Inr (map (map3 (\<lambda>k. f (row ! wrap_index (length row) k))) qs)"
proof -
  have "index_batch (map f row) qs
      = Inr (map (map3 (\<lambda>k. map f row ! wrap_index (length (map f row)) k)) qs)"
    using assms by (intro index_batch_ok) simp
  also have "map (map3 (\<lambda>k. map f row ! wrap_index (length (map f row)) k)) qs
      = map (map3 (\<lambda>k. f (row ! wrap_index (length row) k))) qs"
  proof (rule map_cong [OF refl])
    fix q
    assume "q \<in> set qs"
    then have "ok3 (length row) q" using assms by simp
    then show "map3 (\<lambda>k. map f row ! wrap_index (length (map f row)) k) q
        = map3 (\<lambda>k. f (row ! wrap_index (length row) k)) q"
      by (cases q) (simp add: ok3_def wrap_index_less)
  qed
  finally show ?thesis .
qed


lemma broadcast2_same: "length xs = length ys \<Longrightarrow> broadcast2 xs ys = Inr (zip xs ys)"
  by (simp add: broadcast2_def)

lemma cdp_tail_ok:
  assumes br: "const_deriv_branch F T rel_pos ds ts = Inr (abs_val, dpi, pi', sc, im)"
    and ok: "\<forall>q\<in>set abs_val. ok3 (length dpi) q \<and> ok3 (length pi') q"
    and len: "length data = length abs_val"
  shows "integrate_const_deriv_product F T data rel_pos ds ts
         = Inr (map2 (const_grad_query F dpi pi' sc im) data abs_val)"
proof -
  have a: "index_batch (map (of_py F) dpi) abs_val
      = Inr (map (map3 (\<lambda>k. of_py F (dpi ! wrap_index (length dpi) k))) abs_val)"
    using ok by (intro index_batch_map_ok) simp
  have b: "index_batch (map (of_py F) pi') abs_val
      = Inr (map (map3 (\<lambda>k. of_py F (pi' ! wrap_index (length pi') k))) abs_val)"
    using ok by (intro index_batch_map_ok) simp
  show ?thesis
    using len
    apply (simp add: integrate_const_deriv_product_def br a b Let_def broadcast2_same)
    apply (rule nth_equalityI)
     apply simp
    apply (simp add: const_grad_query_def Let_def map3_def split_beta)
    done
qed


lemma branch_forward:
  assumes "0 < ds" and "ds \<le> ts"
    and "log2_trunc F (ts div ds) = int level"
    and "level < length (DERIVATIVE_PARTIAL_INTEGRAL T)"
    and "level < length (PARTIAL_INTEGRAL T)"
  shows "const_deriv_branch F T rel_pos ds ts
         = Inr (map (map3 (spec_idx_forward F (ts div ds))) rel_pos,
                DERIVATIVE_PARTIAL_INTEGRAL T ! level, PARTIAL_INTEGRAL T ! level,
                ds, of_py F (of_int ds / of_int ts))"
proof -
  have m: "0 < ts div ds" using assms(1,2) by (simp add: pos_imp_zdiv_pos_iff)
  have f: "(\<lambda>r. round_long F (fadd F r (of_py F ((3 * real_of_int (ts div ds) - 1) / 2))))
           = spec_idx_forward F (ts div ds)"
    by (simp add: spec_idx_forward_def fun_eq_iff)
  show ?thesis
    using assms m
    by (simp add: const_deriv_branch_def Let_def int_log2_def py_getitem_in f)
qed

lemma branch_inverse:
  assumes "0 < ts" and "ts < ds"
    and "log2_trunc F (ds div ts) = int (Suc level)"
    and "level < length (INV_DERIVATIVE_PARTIAL_INTEGRAL T)"
    and "level < length (INV_PARTIAL_INTEGRAL T)"
  shows "const_deriv_branch F T rel_pos ds ts
         = Inr (map (map3 (spec_idx_inverse F (ds div ts))) rel_pos,
                INV_DERIVATIVE_PARTIAL_INTEGRAL T ! level, INV_PARTIAL_INTEGRAL T ! level,
                ts, of_py F 1)"
proof -
  have m: "0 < ds div ts" using assms(1,2) by (simp add: pos_imp_zdiv_pos_iff)
  have f: "(\<lambda>r. round_long F (fadd F (fadd F (fmul F r (of_pyint F (ds div ts)))
                    (of_py F (real_of_int (ds div ts) / 2))) (of_py F (1 / 2))))
           = spec_idx_inverse F (ds div ts)"
    by (simp add: spec_idx_inverse_def fun_eq_iff)
  have l: "log2_trunc F (ds div ts) - 1 = int level"
    using assms(3) by simp
  show ?thesis
    using assms(1,2,4,5) m
    by (simp add: const_deriv_branch_def Let_def int_log2_def l py_getitem_in f)
qed

lemma spec_in_range_ok:
  assumes "spec_in_range dtab ptab idx rel_pos"
  shows "\<forall>q\<in>set (map (map3 idx) rel_pos). ok3 (length dtab) q \<and> ok3 (length ptab) q"
  using assms
  by (auto simp add: spec_in_range_def list_all_iff ok3_def index_ok_def)

lemma wrap_index_nonneg: "0 \<le> k \<Longrightarrow> wrap_index n k = nat k"
  by (simp add: wrap_index_def)

lemma tail_spec:
  assumes r: "spec_in_range dtab ptab idx rel_pos"
    and len: "length data = length rel_pos"
  shows "map2 (const_grad_query F dtab ptab sc im) data (map (map3 idx) rel_pos)
         = map2 (spec_const_grad_sum F
                   (\<lambda>r. fmul F (of_py F (dtab ! nat (idx r))) (of_pyint F sc))
                   (\<lambda>r. fmul F (of_py F (ptab ! nat (idx r))) im)) data rel_pos"
    (is "?l = ?r")
proof (rule nth_equalityI)
  show "length ?l = length ?r" by simp
next
  fix i
  assume "i < length ?l"
  then have i: "i < length rel_pos" "i < length data" using len by simp_all
  obtain x y z where q: "rel_pos ! i = (x, y, z)" by (cases "rel_pos ! i")
  obtain d0 d1 d2 where d: "data ! i = (d0, d1, d2)" by (cases "data ! i")
  have "(x, y, z) \<in> set rel_pos" using i(1) q by (metis nth_mem)
  then have "0 \<le> idx x" "0 \<le> idx y" "0 \<le> idx z"
    using r by (auto simp add: spec_in_range_def list_all_iff)
  then show "?l ! i = ?r ! i"
    using i by (simp add: q d const_grad_query_def spec_const_grad_sum_def wrap_index_nonneg)
qed

lemma sample_rows_cd:
  "DERIVATIVE_PARTIAL_INTEGRAL sample_tables ! 0 = [1/4, 3/4, 1, 3/4, 1/4]"
  "PARTIAL_INTEGRAL sample_tables ! 0 = [1/8, 1/2, 3/4, 1/2, 1/8]"
  "DERIVATIVE_PARTIAL_INTEGRAL sample_tables ! Suc 0 = [1/8, 3/8, 5/8, 1, 1, 5/8, 3/8, 1/8]"
  "PARTIAL_INTEGRAL sample_tables ! Suc 0 = [1/16, 1/4, 1/2, 3/4, 3/4, 1/2, 1/4, 1/16]"
  "INV_DERIVATIVE_PARTIAL_INTEGRAL sample_tables ! Suc 0
     = [1/4, 1/2, 3/4, 1, 1, 3/4, 1/2, 1/4]"
  "INV_PARTIAL_INTEGRAL sample_tables ! Suc 0 = [1/8, 3/8, 5/8, 7/8, 7/8, 5/8, 3/8, 1/8]"
  "length (DERIVATIVE_PARTIAL_INTEGRAL sample_tables) = 2"
  "length (PARTIAL_INTEGRAL sample_tables) = 2"
  "length (INV_DERIVATIVE_PARTIAL_INTEGRAL sample_tables) = 2"
  "length (INV_PARTIAL_INTEGRAL sample_tables) = 2"
  by (simp_all add: sample_tables_def)


text \<open>
  Claim C2. Let the strides be powers of two, \<open>data_stride = 2\<^sup>a\<close> and \<open>target_stride = 2\<^sup>b\<close>,
  and let \<open>data\<close> and \<open>rel_pos\<close> have one row per query. If \<open>target_stride \<ge> data_stride\<close>
  then \<open>mult = 2\<^sup>b\<^sup>-\<^sup>a\<close>, \<open>level = b - a\<close> and the call returns \<open>spec_const_grad_forward\<close>; if
  \<open>target_stride < data_stride\<close> then \<open>mult = 2\<^sup>a\<^sup>-\<^sup>b\<close>, \<open>level = a - b - 1\<close> and the call returns
  \<open>spec_const_grad_inverse\<close>; in both cases provided the two tables have that row and every
  computed index is in \<open>[0, len)\<close>. The level is \<open>log2 mult\<close> (less one in the second case),
  \<^verbatim>\<open>math.log2\<close> being exact at a power of two; indices, terms and sums are computed in
  the tensor's arithmetic, in the order of the formulas.
\<close>

theorem integrate_const_deriv_product_in_range:
  assumes "data_stride = 2 ^ a" and "target_stride = 2 ^ b"
    and "length data = length rel_pos"
  shows
    "(a \<le> b \<and> log2_trunc F (2 ^ (b - a)) = int (b - a)
        \<and> b - a < length (DERIVATIVE_PARTIAL_INTEGRAL T)
        \<and> b - a < length (PARTIAL_INTEGRAL T)
        \<and> spec_in_range (DERIVATIVE_PARTIAL_INTEGRAL T ! (b - a)) (PARTIAL_INTEGRAL T ! (b - a))
             (spec_idx_forward F (2 ^ (b - a))) rel_pos
      \<longrightarrow> integrate_const_deriv_product F T data rel_pos data_stride target_stride
          = Inr (spec_const_grad_forward F T (2 ^ (b - a)) (b - a) data_stride target_stride
                   data rel_pos))
   \<and> (b < a \<and> log2_trunc F (2 ^ (a - b)) = int (a - b)
        \<and> a - b - 1 < length (INV_DERIVATIVE_PARTIAL_INTEGRAL T)
        \<and> a - b - 1 < length (INV_PARTIAL_INTEGRAL T)
        \<and> spec_in_range (INV_DERIVATIVE_PARTIAL_INTEGRAL T ! (a - b - 1))
             (INV_PARTIAL_INTEGRAL T ! (a - b - 1)) (spec_idx_inverse F (2 ^ (a - b))) rel_pos
      \<longrightarrow> integrate_const_deriv_product F T data rel_pos data_stride target_stride
          = Inr (spec_const_grad_inverse F T (2 ^ (a - b)) (a - b - 1) data_stride
                   target_stride data rel_pos))"
proof (intro conjI impI)
  assume h: "a \<le> b \<and> log2_trunc F (2 ^ (b - a)) = int (b - a)
        \<and> b - a < length (DERIVATIVE_PARTIAL_INTEGRAL T)
        \<and> b - a < length (PARTIAL_INTEGRAL T)
        \<and> spec_in_range (DERIVATIVE_PARTIAL_INTEGRAL T ! (b - a)) (PARTIAL_INTEGRAL T ! (b - a))
             (spec_idx_forward F (2 ^ (b - a))) rel_pos"
  have d: "target_stride div data_stride = 2 ^ (b - a)"
    using h assms(1,2) by (simp add: pow2_div)
  have pos: "0 < data_stride" "data_stride \<le> target_stride"
    using h assms(1,2) by (simp_all add: power_increasing)
  have lv: "log2_trunc F (target_stride div data_stride) = int (b - a)"
    unfolding d using h by simp
  have br: "const_deriv_branch F T rel_pos data_stride target_stride
         = Inr (map (map3 (spec_idx_forward F (2 ^ (b - a)))) rel_pos,
                DERIVATIVE_PARTIAL_INTEGRAL T ! (b - a), PARTIAL_INTEGRAL T ! (b - a),
                data_stride, of_py F (of_int data_stride / of_int target_stride))"
    using branch_forward [OF pos lv, of T rel_pos] h unfolding d by simp
  have r: "spec_in_range (DERIVATIVE_PARTIAL_INTEGRAL T ! (b - a)) (PARTIAL_INTEGRAL T ! (b - a))
             (spec_idx_forward F (2 ^ (b - a))) rel_pos"
    using h by simp
  have len: "length data = length (map (map3 (spec_idx_forward F (2 ^ (b - a)))) rel_pos)"
    using assms(3) by simp
  show "integrate_const_deriv_product F T data rel_pos data_stride target_stride
          = Inr (spec_const_grad_forward F T (2 ^ (b - a)) (b - a) data_stride target_stride
                   data rel_pos)"
    unfolding cdp_tail_ok [OF br spec_in_range_ok [OF r] len] tail_spec [OF r assms(3)]
    by (simp add: spec_const_grad_forward_def)
next
  assume h: "b < a \<and> log2_trunc F (2 ^ (a - b)) = int (a - b)
        \<and> a - b - 1 < length (INV_DERIVATIVE_PARTIAL_INTEGRAL T)
        \<and> a - b - 1 < length (INV_PARTIAL_INTEGRAL T)
        \<and> spec_in_range (INV_DERIVATIVE_PARTIAL_INTEGRAL T ! (a - b - 1))
             (INV_PARTIAL_INTEGRAL T ! (a - b - 1)) (spec_idx_inverse F (2 ^ (a - b))) rel_pos"
  have d: "data_stride div target_stride = 2 ^ (a - b)"
    using h assms(1,2) by (simp add: pow2_div)
  have pos: "0 < target_stride" "target_stride < data_stride"
    using h assms(1,2) by (simp_all add: power_strict_increasing)
  have lv: "log2_trunc F (data_stride div target_stride) = int (Suc (a - b - 1))"
  proof -
    have "Suc (a - b - 1) = a - b" using h by linarith
    then show ?thesis unfolding d using h by simp
  qed
  have br: "const_deriv_branch F T rel_pos data_stride target_stride
         = Inr (map (map3 (spec_idx_inverse F (2 ^ (a - b)))) rel_pos,
                INV_DERIVATIVE_PARTIAL_INTEGRAL T ! (a - b - 1),
                INV_PARTIAL_INTEGRAL T ! (a - b - 1), target_stride, of_py F 1)"
    using branch_inverse [OF pos lv, of T rel_pos] h unfolding d by simp
  have r: "spec_in_range (INV_DERIVATIVE_PARTIAL_INTEGRAL T ! (a - b - 1))
             (INV_PARTIAL_INTEGRAL T ! (a - b - 1)) (spec_idx_inverse F (2 ^ (a - b))) rel_pos"
    using h by simp
  have len: "length data = length (map (map3 (spec_idx_inverse F (2 ^ (a - b)))) rel_pos)"
    using assms(3) by simp
  show "integrate_const_deriv_product F T data rel_pos data_stride target_stride
          = Inr (spec_const_grad_inverse F T (2 ^ (a - b)) (a - b - 1) data_stride
                   target_stride data rel_pos)"
    unfolding cdp_tail_ok [OF br spec_in_range_ok [OF r] len] tail_spec [OF r assms(3)]
    by (simp add: spec_const_grad_inverse_def)
qed

text \<open>
  Single precision: strides \<open>1, 2\<close> (forward, level \<open>1\<close>) and strides \<open>4, 1\<close> (inverse,
  level \<open>1\<close>).
\<close>

theorem integrate_const_deriv_product_in_range_witness:
  "integrate_const_deriv_product f32_env sample_tables [(F32 1, F32 2, F32 3)]
     [(F32 0, F32 1, F32 (-1))] 1 2 = Inr [F32 (235/256)]
   \<and> integrate_const_deriv_product f32_env sample_tables [(F32 1, F32 2, F32 3)]
       [(F32 0, F32 (1/4), F32 (-(1/4)))] 4 1 = Inr [F32 (183/64)]"
proof -
  have f: "spec_idx_forward f32_env 2 (F32 0) = 2" "spec_idx_forward f32_env 2 (F32 1) = 4"
    "spec_idx_forward f32_env 2 (F32 (-1)) = 2"
    by (simp_all add: spec_idx_forward_def f32_eval Let_def round_half_even_values)
  have g: "spec_idx_inverse f32_env 4 (F32 0) = 2" "spec_idx_inverse f32_env 4 (F32 (1/4)) = 4"
    "spec_idx_inverse f32_env 4 (F32 (-(1/4))) = 2"
    by (simp_all add: spec_idx_inverse_def f32_eval Let_def round_half_even_values)
  have "integrate_const_deriv_product f32_env sample_tables [(F32 1, F32 2, F32 3)]
          [(F32 0, F32 1, F32 (-1))] 1 2
      = Inr (spec_const_grad_forward f32_env sample_tables (2 ^ (1 - 0)) (1 - 0) 1 2
               [(F32 1, F32 2, F32 3)] [(F32 0, F32 1, F32 (-1))])"
    by (rule integrate_const_deriv_product_in_range
          [where a = 0 and b = 1, THEN conjunct1, THEN mp])
       (simp_all add: sample_rows_cd spec_in_range_def f f32_log2_trunc_2)
  moreover have "spec_const_grad_forward f32_env sample_tables (2 ^ (1 - 0)) (1 - 0) 1 2
               [(F32 1, F32 2, F32 3)] [(F32 0, F32 1, F32 (-1))] = [F32 (235/256)]"
    by (simp add: spec_const_grad_forward_def spec_const_grad_sum_def sample_rows_cd f
        f32_eval)
  moreover have "integrate_const_deriv_product f32_env sample_tables [(F32 1, F32 2, F32 3)]
          [(F32 0, F32 (1/4), F32 (-(1/4)))] 4 1
      = Inr (spec_const_grad_inverse f32_env sample_tables (2 ^ (2 - 0)) (2 - 0 - 1) 4 1
               [(F32 1, F32 2, F32 3)] [(F32 0, F32 (1/4), F32 (-(1/4)))])"
    by (rule integrate_const_deriv_product_in_range
          [where a = 2 and b = 0, THEN conjunct2, THEN mp])
       (simp_all add: sample_rows_cd spec_in_range_def g f32_log2_trunc_4)
  moreover have "spec_const_grad_inverse f32_env sample_tables (2 ^ (2 - 0)) (2 - 0 - 1) 4 1
               [(F32 1, F32 2, F32 3)] [(F32 0, F32 (1/4), F32 (-(1/4)))] = [F32 (183/64)]"
    by (simp add: spec_const_grad_inverse_def spec_const_grad_sum_def sample_rows_cd g
        f32_eval)
  ultimately show ?thesis by simp
qed



section \<open>Properties of the dataset harness\<close>

lemma get_rng_skip_on_error:
  "get_rng E ds idx = (r, ds1) \<Longrightarrow> skip_on_error ds1 = skip_on_error ds"
  by (auto simp add: get_rng_def Let_def split: if_splits sum.splits)

lemma sample_get_rng:
  "0 \<le> data_id \<Longrightarrow> data_id < 1000 \<Longrightarrow>
   get_rng sample_env sample_dataset data_id
     = (Inr (data_id + 7), sample_dataset\<lparr>read_count := [data_id \<mapsto> 1]\<rparr>)"
  by (simp add: get_rng_def py_RandomState_def sample_env_def sample_dataset_def)

lemma sample_get_rng_enabled:
  "0 \<le> data_id \<Longrightarrow> data_id < 1000 \<Longrightarrow>
   get_rng sample_env (sample_dataset\<lparr>skip_on_error := True\<rparr>) data_id
     = (Inr (data_id + 7),
        sample_dataset\<lparr>skip_on_error := True, read_count := [data_id \<mapsto> 1]\<rparr>)"
  by (simp add: get_rng_def py_RandomState_def sample_env_def sample_dataset_def)

text \<open>
  Claim C10 says that with \<open>skip_on_error\<close> disabled every exception of \<^verbatim>\<open>_get_item\<close>
  reaches the caller and no other index is tried. The \<^verbatim>\<open>else\<close> branch of \<^verbatim>\<open>__getitem__\<close>
  has its own \<^verbatim>\<open>except ConnectionAbortedError\<close>: fetching item \<open>0\<close> of the sample dataset
  returns item \<open>1\<close>.
\<close>

theorem getitem_connection_aborted_counterexample:
  "\<not> skip_on_error sample_dataset
   \<and> fst (get_rng sample_env sample_dataset 0) = Inr 7
   \<and> fst (get_item sample_env 0 7) = Inl ConnectionAbortedError
   \<and> fst (getitem 2 sample_env sample_dataset 0) = Some (Inr 10)"
proof -
  have "getitem 2 sample_env sample_dataset 0
      = getitem (Suc (Suc 0)) sample_env sample_dataset 0"
    by (simp add: numeral_2_eq_2)
  also have "fst \<dots> = Some (Inr 10)"
    by (simp add: get_rng_def py_RandomState_def sample_env_def sample_dataset_def
        py_randint_def)
  finally show ?thesis
    by (simp add: get_rng_def py_RandomState_def sample_env_def sample_dataset_def)
qed

text \<open>
  Claim C10, amended. Let \<^verbatim>\<open>get_rng\<close> return a generator and \<^verbatim>\<open>_get_item\<close> raise \<open>e\<close>. With
  \<open>skip_on_error\<close> disabled, an exception other than \<^verbatim>\<open>ConnectionAbortedError\<close> reaches the
  caller unchanged, at once and with no other index tried (the state is the one
  \<^verbatim>\<open>get_rng\<close> left). A \<^verbatim>\<open>ConnectionAbortedError\<close> is caught in both modes, whether
  \<open>skip_on_error\<close> is enabled or disabled: the call continues as \<^verbatim>\<open>__getitem__\<close> of the
  index \<^verbatim>\<open>rng.randint(0, len(self) - 1)\<close>, without a warning.
\<close>

theorem getitem_skip_policy:
  assumes "get_rng E ds data_id = (Inr rng, ds1)"
    and "get_item E data_id rng = (Inl e, rng')"
  shows "(\<not> skip_on_error ds \<and> e \<noteq> ConnectionAbortedError \<longrightarrow>
            getitem (Suc fuel) E ds data_id = (Some (Inl e), ds1))
       \<and> (e = ConnectionAbortedError \<longrightarrow>
            getitem (Suc fuel) E ds data_id
            = (case py_randint E rng' 0 (dataset_len E - 1) of
                 Inl e' \<Rightarrow> (Some (Inl e'), ds1)
               | Inr k \<Rightarrow> getitem fuel E ds1 k))"
proof -
  have "skip_on_error ds1 = skip_on_error ds"
    using assms(1) by (rule get_rng_skip_on_error)
  then show ?thesis
    by (simp add: assms)
qed

text \<open>
  With \<open>skip_on_error\<close> disabled, item \<open>2\<close> propagates its exception and item \<open>0\<close> is replaced
  by item \<open>1\<close>; with \<open>skip_on_error\<close> enabled, item \<open>0\<close> is replaced by item \<open>1\<close> as well, and
  nothing is printed.
\<close>

theorem getitem_skip_policy_witness:
  "getitem 1 sample_env sample_dataset 2
     = (Some (Inl (OtherException ''corrupt sample'')),
        sample_dataset\<lparr>read_count := [2 \<mapsto> 1]\<rparr>)
   \<and> getitem 2 sample_env sample_dataset 0
     = (Some (Inr 10), sample_dataset\<lparr>read_count := [0 \<mapsto> 1, 1 \<mapsto> 1]\<rparr>)
   \<and> getitem 2 sample_env (sample_dataset\<lparr>skip_on_error := True\<rparr>) 0
     = (Some (Inr 10),
        sample_dataset\<lparr>skip_on_error := True, read_count := [0 \<mapsto> 1, 1 \<mapsto> 1]\<rparr>)"
proof -
  have n: "\<not> skip_on_error sample_dataset"
    by (simp add: sample_dataset_def)
  have r2: "get_rng sample_env sample_dataset 2
      = (Inr (2 + 7), sample_dataset\<lparr>read_count := [2 \<mapsto> 1]\<rparr>)"
    and r0: "get_rng sample_env sample_dataset 0
      = (Inr (0 + 7), sample_dataset\<lparr>read_count := [0 \<mapsto> 1]\<rparr>)"
    and r0e: "get_rng sample_env (sample_dataset\<lparr>skip_on_error := True\<rparr>) 0
      = (Inr (0 + 7), sample_dataset\<lparr>skip_on_error := True, read_count := [0 \<mapsto> 1]\<rparr>)"
    by (rule sample_get_rng sample_get_rng_enabled, simp, simp)+
  have g2: "get_item sample_env 2 (2 + 7) = (Inl (OtherException ''corrupt sample''), 2 + 7)"
    and g0: "get_item sample_env 0 (0 + 7) = (Inl ConnectionAbortedError, 0 + 7)"
    by (simp_all add: sample_env_def)
  have r: "py_randint sample_env (0 + 7) 0 (dataset_len sample_env - 1) = Inr 1"
    by (simp add: py_randint_def sample_env_def)
  have a: "getitem (Suc 0) sample_env sample_dataset 2
     = (Some (Inl (OtherException ''corrupt sample'')),
        sample_dataset\<lparr>read_count := [2 \<mapsto> 1]\<rparr>)"
    by (rule getitem_skip_policy [OF r2 g2, THEN conjunct1, THEN mp]) (simp add: n)
  have b: "getitem (Suc (Suc 0)) sample_env sample_dataset 0
     = (case py_randint sample_env (0 + 7) 0 (dataset_len sample_env - 1) of
          Inl e' \<Rightarrow> (Some (Inl e'), sample_dataset\<lparr>read_count := [0 \<mapsto> 1]\<rparr>)
        | Inr k \<Rightarrow> getitem (Suc 0) sample_env (sample_dataset\<lparr>read_count := [0 \<mapsto> 1]\<rparr>) k)"
    by (rule getitem_skip_policy [OF r0 g0, THEN conjunct2, THEN mp]) simp
  have c: "getitem (Suc 0) sample_env (sample_dataset\<lparr>read_count := [0 \<mapsto> 1]\<rparr>) 1
      = (Some (Inr 10), sample_dataset\<lparr>read_count := [0 \<mapsto> 1, 1 \<mapsto> 1]\<rparr>)"
    by (simp add: get_rng_def py_RandomState_def sample_env_def sample_dataset_def)
  have be: "getitem (Suc (Suc 0)) sample_env (sample_dataset\<lparr>skip_on_error := True\<rparr>) 0
     = (case py_randint sample_env (0 + 7) 0 (dataset_len sample_env - 1) of
          Inl e' \<Rightarrow> (Some (Inl e'),
                     sample_dataset\<lparr>skip_on_error := True, read_count := [0 \<mapsto> 1]\<rparr>)
        | Inr k \<Rightarrow> getitem (Suc 0) sample_env
                     (sample_dataset\<lparr>skip_on_error := True, read_count := [0 \<mapsto> 1]\<rparr>) k)"
    by (rule getitem_skip_policy [OF r0e g0, THEN conjunct2, THEN mp]) simp
  have ce: "getitem (Suc 0) sample_env
              (sample_dataset\<lparr>skip_on_error := True, read_count := [0 \<mapsto> 1]\<rparr>) 1
      = (Some (Inr 10),
         sample_dataset\<lparr>skip_on_error := True, read_count := [0 \<mapsto> 1, 1 \<mapsto> 1]\<rparr>)"
    by (simp add: get_rng_def py_RandomState_def sample_env_def sample_dataset_def)
  have "getitem (Suc (Suc 0)) sample_env sample_dataset 0
      = (Some (Inr 10), sample_dataset\<lparr>read_count := [0 \<mapsto> 1, 1 \<mapsto> 1]\<rparr>)"
    unfolding b by (simp only: r sum.case c)
  moreover have "getitem (Suc (Suc 0)) sample_env (sample_dataset\<lparr>skip_on_error := True\<rparr>) 0
      = (Some (Inr 10),
         sample_dataset\<lparr>skip_on_error := True, read_count := [0 \<mapsto> 1, 1 \<mapsto> 1]\<rparr>)"
    unfolding be by (simp only: r sum.case ce)
  ultimately show ?thesis using a by (simp add: numeral_2_eq_2)
qed

end
